theory Spec2Isabelle
  imports Complex_Main
begin

section \<open>Scene data\<close>

text \<open>
  JavaScript numbers are modelled as reals: the functions below copy and compare them
  and do the arithmetic of the clamp and of the floor offset; rounding is not modelled.
  A property that may be \<open>undefined\<close> is an \<open>option\<close> (\<open>None\<close> is \<open>undefined\<close> or
  \<open>null\<close>).
\<close>

record vec3 =
  vx :: real
  vy :: real
  vz :: real

definition Vector3 :: "real \<Rightarrow> real \<Rightarrow> real \<Rightarrow> vec3" where
  "Vector3 a b c = \<lparr>vx = a, vy = b, vz = c\<rparr>"

text \<open>
  A \<open>THREE.Color\<close>. \<open>Hex\<close> is a colour given by its 24-bit code, \<open>HSL\<close> one set by
  \<open>setHSL\<close>, \<open>Scaled\<close> the result of \<open>multiplyScalar\<close>. The string
  \<open>'#' + getHexString()\<close> of the layout document is represented by the colour it denotes.
\<close>

datatype rgb = Hex nat | HSL real real real | Scaled rgb real

text \<open>A material with the channels the program reads and writes.\<close>

record std_material =
  color :: "rgb option"
  metalness :: "real option"
  roughness :: "real option"
  opacity :: "real option"
  transparent :: bool
  emissive :: "rgb option"
  emissiveIntensity :: "real option"
  isCloned :: bool
  needsUpdate :: bool

text \<open>
  Materials are objects shared by reference (the loader hands out clones of a cached
  scene that keep the cached materials; a placeholder uses one material for several
  meshes), so they live in a store and a mesh holds a reference.
\<close>

type_synonym mat_ref = nat

record heap =
  mats :: "mat_ref \<Rightarrow> std_material"
  next_ref :: mat_ref

definition alloc :: "std_material \<Rightarrow> heap \<Rightarrow> mat_ref \<times> heap" where
  "alloc m h = (next_ref h, h\<lparr>mats := (mats h)(next_ref h := m), next_ref := Suc (next_ref h)\<rparr>)"

datatype geometry =
    BoxGeometry real real real
  | CylinderGeometry real real real
  | BufferGeometry vec3 vec3

text \<open>A node of an \<open>Object3D\<close> tree.\<close>

record node =
  uuid :: string
  name :: string
  isMesh :: bool
  position :: vec3
  rotation :: vec3
  scale :: vec3
  geometry :: "geometry option"
  material :: "mat_ref option"

text \<open>The catalog entry attached to a placed item.\<close>

record furniture_data =
  fd_name :: "string option"
  fd_path :: "string option"
  fd_id :: "int option"

record user_data =
  ud_id :: "real option"
  ud_name :: "string option"
  ud_furnitureType :: "string option"
  ud_furniturePath :: "string option"
  ud_furnitureId :: "int option"
  ud_furnitureData :: "furniture_data option"
  isSelected :: bool

text \<open>
  A placed item: its root node, the root's \<open>userData\<close>, and the other nodes of its
  tree in the order \<open>traverse\<close> visits them (the root first, then its descendants).
\<close>

record object3d =
  root :: node
  userData :: user_data
  descendants :: "node list"

definition traverse :: "object3d \<Rightarrow> node list" where
  "traverse obj = root obj # descendants obj"

section \<open>JavaScript truthiness\<close>

definition truthy :: "string option \<Rightarrow> bool" where
  "truthy s = (case s of None \<Rightarrow> False | Some t \<Rightarrow> t \<noteq> [])"

definition truthy_num :: "int option \<Rightarrow> bool" where
  "truthy_num n = (case n of None \<Rightarrow> False | Some k \<Rightarrow> k \<noteq> 0)"

text \<open>\<open>a || b\<close> on strings and on numbers.\<close>

definition or_js :: "string option \<Rightarrow> string option \<Rightarrow> string option" where
  "or_js a b = (if truthy a then a else b)"

definition or_num :: "int option \<Rightarrow> int option \<Rightarrow> int option" where
  "or_num a b = (if truthy_num a then a else b)"

section \<open>Strings\<close>

fun starts_with :: "string \<Rightarrow> string \<Rightarrow> bool" where
  "starts_with xs [] = True"
| "starts_with [] (y # ys) = False"
| "starts_with (x # xs) (y # ys) = (x = y \<and> starts_with xs ys)"

text \<open>\<open>s.includes(sub)\<close>.\<close>

fun includes_str :: "string \<Rightarrow> string \<Rightarrow> bool" where
  "includes_str [] sub = (sub = [])"
| "includes_str (x # xs) sub = (starts_with (x # xs) sub \<or> includes_str xs sub)"

text \<open>\<open>s.toLowerCase()\<close>, on ASCII letters.\<close>

definition lower_char :: "char \<Rightarrow> char" where
  "lower_char c =
     (case map_of (zip ''ABCDEFGHIJKLMNOPQRSTUVWXYZ'' ''abcdefghijklmnopqrstuvwxyz'') c of
        Some d \<Rightarrow> d
      | None \<Rightarrow> c)"

definition toLowerCase :: "string \<Rightarrow> string" where
  "toLowerCase s = map lower_char s"

section \<open>StorageManager: the layout document\<close>

record material_mod =
  childName :: string
  mod_color :: "rgb option"
  mod_metalness :: "real option"
  mod_roughness :: "real option"
  mod_opacity :: "real option"

record object_data =
  od_name :: string
  furnitureType :: "string option"
  furniturePath :: "string option"
  furnitureId :: "int option"
  furnitureData :: "furniture_data option"
  od_position :: vec3
  od_rotation :: vec3
  od_scale :: vec3
  materialMods :: "material_mod list option"

record layout_data =
  version :: string
  timestamp :: real
  objects :: "object_data list"

text \<open>
  \<open>localStorage\<close>. The JSON text stored under a key is represented by the document it
  encodes; \<open>setItem\<close> throws when the quota is exceeded.
\<close>

record storage =
  entries :: "string \<rightharpoonup> layout_data"
  quota_exceeded :: bool

definition STORAGE_KEY :: string where
  "STORAGE_KEY = ''3d-home-design-layout''"

definition setItem :: "storage \<Rightarrow> string \<Rightarrow> layout_data \<Rightarrow> storage option" where
  "setItem st k v = (if quota_exceeded st then None else Some (st\<lparr>entries := (entries st)(k \<mapsto> v)\<rparr>))"

definition empty_furniture_data :: furniture_data where
  "empty_furniture_data = \<lparr>fd_name = None, fd_path = None, fd_id = None\<rparr>"

definition serializeMaterialMod :: "heap \<Rightarrow> node \<Rightarrow> material_mod list" where
  "serializeMaterialMod h child =
     (case material child of
        None \<Rightarrow> []
      | Some r \<Rightarrow>
          if isMesh child \<and> isCloned (mats h r) then
            [\<lparr>childName = (if name child \<noteq> [] then name child else uuid child),
              mod_color = color (mats h r),
              mod_metalness = metalness (mats h r),
              mod_roughness = roughness (mats h r),
              mod_opacity = opacity (mats h r)\<rparr>]
          else [])"

definition serializeMaterialMods :: "heap \<Rightarrow> object3d \<Rightarrow> material_mod list option" where
  "serializeMaterialMods h obj =
     (let mods = concat (map (serializeMaterialMod h) (traverse obj))
      in if mods \<noteq> [] then Some mods else None)"

definition serializeObject :: "heap \<Rightarrow> object3d \<Rightarrow> object_data" where
  "serializeObject h obj =
     (let fd = (case ud_furnitureData (userData obj) of None \<Rightarrow> empty_furniture_data | Some d \<Rightarrow> d)
      in \<lparr>od_name = name (root obj),
          furnitureType = or_js (or_js (ud_furnitureType (userData obj)) (fd_name fd)) (Some ''unknown''),
          furniturePath = or_js (or_js (ud_furniturePath (userData obj)) (fd_path fd)) (Some ''''),
          furnitureId = or_num (or_num (ud_furnitureId (userData obj)) (fd_id fd)) (Some 0),
          furnitureData = Some fd,
          od_position = position (root obj),
          od_rotation = rotation (root obj),
          od_scale = scale (root obj),
          materialMods = serializeMaterialMods h obj\<rparr>)"

text \<open>
  \<open>saveLayout\<close>: \<open>placedObjects\<close> is the list kept by \<open>AppState\<close>, \<open>now\<close> is
  \<open>Date.now()\<close>. The result is the returned flag and the store afterwards.
\<close>

definition saveLayout :: "heap \<Rightarrow> real \<Rightarrow> object3d list \<Rightarrow> storage \<Rightarrow> bool \<times> storage" where
  "saveLayout h now placedObjects st =
     (if length placedObjects = 0 then (False, st)
      else
        let layoutData = \<lparr>version = ''1.0'', timestamp = now,
                          objects = map (serializeObject h) placedObjects\<rparr>
        in case setItem st STORAGE_KEY layoutData of
             Some st' \<Rightarrow> (True, st')
           | None \<Rightarrow> (False, st))"

text \<open>
  \<open>new THREE.MeshStandardMaterial({color, roughness, metalness})\<close>; the other channels
  take the library's defaults.
\<close>

definition MeshStandardMaterial :: "rgb \<Rightarrow> real \<Rightarrow> real \<Rightarrow> std_material" where
  "MeshStandardMaterial c r m =
     \<lparr>color = Some c, metalness = Some m, roughness = Some r, opacity = Some 1,
      transparent = False, emissive = Some (Hex 0), emissiveIntensity = Some 1,
      isCloned = False, needsUpdate = False\<rparr>"

definition zero3 :: vec3 where
  "zero3 = Vector3 0 0 0"

definition one3 :: vec3 where
  "one3 = Vector3 1 1 1"

text \<open>\<open>new THREE.Mesh(geometry, material)\<close> and \<open>new THREE.Group()\<close>, with the uuid the library draws.\<close>

definition Mesh :: "string \<Rightarrow> geometry \<Rightarrow> mat_ref \<Rightarrow> node" where
  "Mesh u g r =
     \<lparr>uuid = u, name = [], isMesh = True, position = zero3, rotation = zero3, scale = one3,
      geometry = Some g, material = Some r\<rparr>"

definition Group :: "string \<Rightarrow> node" where
  "Group u =
     \<lparr>uuid = u, name = [], isMesh = False, position = zero3, rotation = zero3, scale = one3,
      geometry = None, material = None\<rparr>"

definition placed_at :: "node \<Rightarrow> vec3 \<Rightarrow> node" where
  "placed_at n p = n\<lparr>position := p\<rparr>"

definition empty_user_data :: user_data where
  "empty_user_data =
     \<lparr>ud_id = None, ud_name = None, ud_furnitureType = None, ud_furniturePath = None,
      ud_furnitureId = None, ud_furnitureData = None, isSelected = False\<rparr>"

text \<open>
  \<open>StorageManager.js\<close> holds the class \<open>StorageManager\<close> twice. The two copies agree in
  \<open>saveLayout\<close>, \<open>_serializeObject\<close>, \<open>_serializeMaterialMods\<close>, \<open>_applyMaterialMods\<close> and,
  log messages apart, in \<open>_deserializeObject\<close>; they differ in \<open>_createFallbackPrimitive\<close>
  and in the arguments \<open>_deserializeObject\<close> passes to it. Both are modelled: what
  follows is parameterised by the copy.
\<close>

datatype revision = Rev1 | Rev2

text \<open>
  \<open>_createFallbackPrimitive(type)\<close> of the first copy: one grey box, whatever the type.
  \<open>u\<close> is the uuid of the new mesh.
\<close>

definition createFallbackPrimitive1 :: "string option \<Rightarrow> string \<Rightarrow> heap \<Rightarrow> object3d \<times> heap" where
  "createFallbackPrimitive1 type u h =
     (let (r, h') = alloc (MeshStandardMaterial (Hex 0x888888) 1 0) h
      in (\<lparr>root = Mesh u (BoxGeometry 1 0.5 1) r, userData = empty_user_data, descendants = []\<rparr>, h'))"

text \<open>
  \<open>_createFallbackPrimitive(type, furnitureData)\<close> of the second copy. The type is the
  saved one (\<open>'default'\<close> when that is missing or empty), replaced by a class when the name
  of the saved catalog entry contains one of the listed words; the colour is looked up by
  type among the six keys of \<open>typeColors\<close> (the properties an object literal inherits are
  not modelled); the \<open>switch\<close> has a shape for \<open>chair\<close>, \<open>table\<close> and \<open>couch\<close> and one
  box for every other type. \<open>us 0\<close> is the uuid of the group, the meshes follow in the
  order they are created.
\<close>

definition fallbackType :: "string option \<Rightarrow> furniture_data option \<Rightarrow> string" where
  "fallbackType type fdata =
     (let furnitureType = (case or_js type (Some ''default'') of Some t \<Rightarrow> t | None \<Rightarrow> ''default'')
      in case fdata of
           None \<Rightarrow> furnitureType
         | Some fd \<Rightarrow>
             (let lname = toLowerCase (case or_js (fd_name fd) (Some []) of Some s \<Rightarrow> s | None \<Rightarrow> [])
              in if includes_str lname ''chair'' \<or> includes_str lname ''arm'' then ''chair''
                 else if includes_str lname ''table'' then ''table''
                 else if includes_str lname ''couch'' \<or> includes_str lname ''sofa'' then ''couch''
                 else if includes_str lname ''bed'' then ''bed''
                 else if includes_str lname ''cabinet'' \<or> includes_str lname ''wardrobe'' then ''cabinet''
                 else furnitureType))"

definition typeColor :: "string \<Rightarrow> nat" where
  "typeColor t =
     (if t = ''chair'' then 0x8B4513
      else if t = ''table'' then 0xDEB887
      else if t = ''couch'' then 0x4169E1
      else if t = ''bed'' then 0x9370DB
      else if t = ''cabinet'' then 0x2F4F4F
      else 0x708090)"

definition createFallbackPrimitive2 ::
  "string option \<Rightarrow> furniture_data option \<Rightarrow> (nat \<Rightarrow> string) \<Rightarrow> heap \<Rightarrow> object3d \<times> heap" where
  "createFallbackPrimitive2 type fdata us h =
     (let group = Group (us 0);
          furnitureType = fallbackType type fdata;
          (mat, h1) = alloc (MeshStandardMaterial (Hex (typeColor furnitureType)) 0.7 0.1) h
      in
        if furnitureType = ''chair'' then
          let (legMat, h2) = alloc (MeshStandardMaterial (Hex 0x333333) 1 0) h1
          in (\<lparr>root = group, userData = empty_user_data, descendants =
                [placed_at (Mesh (us 1) (BoxGeometry 0.5 0.1 0.5) mat) (Vector3 0 0.45 0),
                 placed_at (Mesh (us 2) (BoxGeometry 0.5 0.5 0.08) mat) (Vector3 0 0.7 (- 0.21)),
                 placed_at (Mesh (us 3) (CylinderGeometry 0.03 0.03 0.4) legMat) (Vector3 (- 0.2) 0.2 (- 0.2)),
                 placed_at (Mesh (us 4) (CylinderGeometry 0.03 0.03 0.4) legMat) (Vector3 0.2 0.2 (- 0.2)),
                 placed_at (Mesh (us 5) (CylinderGeometry 0.03 0.03 0.4) legMat) (Vector3 (- 0.2) 0.2 0.2),
                 placed_at (Mesh (us 6) (CylinderGeometry 0.03 0.03 0.4) legMat) (Vector3 0.2 0.2 0.2)]\<rparr>, h2)
        else if furnitureType = ''table'' then
          (\<lparr>root = group, userData = empty_user_data, descendants =
              [placed_at (Mesh (us 1) (BoxGeometry 1.2 0.08 0.8) mat) (Vector3 0 0.75 0),
               placed_at (Mesh (us 2) (BoxGeometry 0.08 0.7 0.08) mat) (Vector3 (- 0.5) 0.35 (- 0.3)),
               placed_at (Mesh (us 3) (BoxGeometry 0.08 0.7 0.08) mat) (Vector3 0.5 0.35 (- 0.3)),
               placed_at (Mesh (us 4) (BoxGeometry 0.08 0.7 0.08) mat) (Vector3 (- 0.5) 0.35 0.3),
               placed_at (Mesh (us 5) (BoxGeometry 0.08 0.7 0.08) mat) (Vector3 0.5 0.35 0.3)]\<rparr>, h1)
        else if furnitureType = ''couch'' then
          (\<lparr>root = group, userData = empty_user_data, descendants =
              [placed_at (Mesh (us 1) (BoxGeometry 2 0.4 0.9) mat) (Vector3 0 0.25 0),
               placed_at (Mesh (us 2) (BoxGeometry 2 0.5 0.2) mat) (Vector3 0 0.65 (- 0.35)),
               placed_at (Mesh (us 3) (BoxGeometry 0.15 0.3 0.7) mat) (Vector3 (- 0.925) 0.5 0),
               placed_at (Mesh (us 4) (BoxGeometry 0.15 0.3 0.7) mat) (Vector3 0.925 0.5 0)]\<rparr>, h1)
        else
          (\<lparr>root = group, userData = empty_user_data, descendants =
              [placed_at (Mesh (us 1) (BoxGeometry 0.8 0.5 0.8) mat) (Vector3 0 0.25 0)]\<rparr>, h1))"

text \<open>The placeholder \<open>_deserializeObject\<close> builds, in either copy.\<close>

definition createFallbackPrimitive ::
  "revision \<Rightarrow> string option \<Rightarrow> furniture_data option \<Rightarrow> (nat \<Rightarrow> string) \<Rightarrow> heap \<Rightarrow> object3d \<times> heap" where
  "createFallbackPrimitive v type fdata us h =
     (case v of
        Rev1 \<Rightarrow> createFallbackPrimitive1 type (us 0) h
      | Rev2 \<Rightarrow> createFallbackPrimitive2 type fdata us h)"

text \<open>A callback run by \<open>traverse\<close> on every node, threading the material store.\<close>

fun traverse_with :: "(node \<Rightarrow> heap \<Rightarrow> node \<times> heap) \<Rightarrow> node list \<Rightarrow> heap \<Rightarrow> node list \<times> heap" where
  "traverse_with f [] h = ([], h)"
| "traverse_with f (n # ns) h =
     (let (n', h') = f n h; (ns', h'') = traverse_with f ns h' in (n' # ns', h''))"

definition set_nodes :: "object3d \<Rightarrow> node list \<Rightarrow> object3d" where
  "set_nodes obj ns = (case ns of [] \<Rightarrow> obj | r # ds \<Rightarrow> obj\<lparr>root := r, descendants := ds\<rparr>)"

definition traverse_update :: "(node \<Rightarrow> heap \<Rightarrow> node \<times> heap) \<Rightarrow> object3d \<Rightarrow> heap \<Rightarrow> object3d \<times> heap" where
  "traverse_update f obj h = (let (ns, h') = traverse_with f (traverse obj) h in (set_nodes obj ns, h'))"

definition modify :: "mat_ref \<Rightarrow> (std_material \<Rightarrow> std_material) \<Rightarrow> heap \<Rightarrow> heap" where
  "modify r f h = h\<lparr>mats := (mats h)(r := f (mats h r))\<rparr>"

text \<open>\<open>child.material = child.material.clone(); child.material._isCloned = true\<close>.\<close>

definition clone_material :: "node \<Rightarrow> mat_ref \<Rightarrow> heap \<Rightarrow> node \<times> mat_ref \<times> heap" where
  "clone_material child r h =
     (let (r', h') = alloc ((mats h r)\<lparr>isCloned := True\<rparr>) h
      in (child\<lparr>material := Some r'\<rparr>, r', h'))"

definition write_mod :: "material_mod \<Rightarrow> std_material \<Rightarrow> std_material" where
  "write_mod md m =
     (let m1 = (if mod_color md \<noteq> None \<and> color m \<noteq> None then m\<lparr>color := mod_color md\<rparr> else m);
          m2 = (if mod_metalness md \<noteq> None then m1\<lparr>metalness := mod_metalness md\<rparr> else m1);
          m3 = (if mod_roughness md \<noteq> None then m2\<lparr>roughness := mod_roughness md\<rparr> else m2)
      in case mod_opacity md of
           None \<Rightarrow> m3
         | Some op \<Rightarrow> m3\<lparr>opacity := Some op, transparent := (op < 1)\<rparr>)"

definition applyMaterialMod :: "material_mod list \<Rightarrow> node \<Rightarrow> heap \<Rightarrow> node \<times> heap" where
  "applyMaterialMod mods child h =
     (case material child of
        None \<Rightarrow> (child, h)
      | Some r \<Rightarrow>
          if \<not> isMesh child then (child, h)
          else
            case find (\<lambda>m. childName m = name child \<or> childName m = uuid child) mods of
              None \<Rightarrow> (child, h)
            | Some md \<Rightarrow>
                let (child', r', h') = clone_material child r h
                in (child', modify r' (write_mod md) h'))"

definition applyMaterialMods :: "object3d \<Rightarrow> material_mod list \<Rightarrow> heap \<Rightarrow> object3d \<times> heap" where
  "applyMaterialMods obj mods h = traverse_update (applyMaterialMod mods) obj h"

text \<open>
  The asset path \<open>_deserializeObject\<close> resolves:
  \<open>objData.furniturePath || objData.furnitureData?.path\<close>.
\<close>

definition modelPath :: "object_data \<Rightarrow> string option" where
  "modelPath objData =
     or_js (furniturePath objData)
           (case furnitureData objData of None \<Rightarrow> None | Some fd \<Rightarrow> fd_path fd)"

text \<open>
  \<open>_deserializeObject\<close>. \<open>hasContainer\<close> says whether the scene has the furniture
  container; \<open>loader\<close> is \<open>this.furnitureLoader\<close>, whose \<open>load\<close> gives \<open>None\<close> when the
  asset cannot be loaded; \<open>us\<close> are the uuids the library draws for the nodes of a
  placeholder and \<open>i\<close> is the new instance id. The result is the restored item, or
  \<open>None\<close> for the \<open>null\<close> returned without a container.
\<close>

definition load_model :: "(string \<Rightarrow> object3d option) option \<Rightarrow> string option \<Rightarrow> object3d option" where
  "load_model loader mp =
     (case loader of
        None \<Rightarrow> None
      | Some load \<Rightarrow> (case mp of None \<Rightarrow> None | Some p \<Rightarrow> if p \<noteq> [] then load p else None))"

definition restore_properties :: "real \<Rightarrow> object_data \<Rightarrow> object3d \<Rightarrow> object3d" where
  "restore_properties i objData furniture =
     furniture
       \<lparr>root := (root furniture)
          \<lparr>name := od_name objData, position := od_position objData,
           rotation := od_rotation objData, scale := od_scale objData\<rparr>,
        userData :=
          \<lparr>ud_id = Some i,
           ud_name = Some (od_name objData),
           ud_furnitureType = furnitureType objData,
           ud_furniturePath = modelPath objData,
           ud_furnitureId = furnitureId objData,
           ud_furnitureData = Some (case furnitureData objData of
                                     Some fd \<Rightarrow> fd
                                   | None \<Rightarrow> \<lparr>fd_name = furnitureType objData,
                                              fd_path = modelPath objData,
                                              fd_id = furnitureId objData\<rparr>),
           isSelected = False\<rparr>\<rparr>"

definition load_or_fallback ::
  "revision \<Rightarrow> (string \<Rightarrow> object3d option) option \<Rightarrow> (nat \<Rightarrow> string) \<Rightarrow> object_data \<Rightarrow> heap
     \<Rightarrow> object3d \<times> heap" where
  "load_or_fallback v loader us objData h =
     (case load_model loader (modelPath objData) of
        Some f \<Rightarrow> (f, h)
      | None \<Rightarrow> createFallbackPrimitive v (furnitureType objData) (furnitureData objData) us h)"



section \<open>Bounding boxes\<close>

text \<open>A \<open>THREE.Box3\<close>; \<open>None\<close> is the empty box.\<close>

record box3 =
  bmin :: vec3
  bmax :: vec3

definition getSize :: "box3 option \<Rightarrow> vec3" where
  "getSize b = (case b of
                  None \<Rightarrow> zero3
                | Some bx \<Rightarrow> Vector3 (vx (bmax bx) - vx (bmin bx)) (vy (bmax bx) - vy (bmin bx))
                                     (vz (bmax bx) - vz (bmin bx)))"

definition add3 :: "vec3 \<Rightarrow> vec3 \<Rightarrow> vec3" where
  "add3 a b = Vector3 (vx a + vx b) (vy a + vy b) (vz a + vz b)"

definition sub3 :: "vec3 \<Rightarrow> vec3 \<Rightarrow> vec3" where
  "sub3 a b = Vector3 (vx a - vx b) (vy a - vy b) (vz a - vz b)"

definition translate :: "vec3 \<Rightarrow> box3 \<Rightarrow> box3" where
  "translate p b = \<lparr>bmin = add3 p (bmin b), bmax = add3 p (bmax b)\<rparr>"

text \<open>
  \<open>new THREE.Box3().setFromObject(obj)\<close>. The library computes the box from the
  geometry, positions, rotations and scales of the nodes and moves it with the root's
  position (the container of the placed items is never moved). The first part is the
  parameter \<open>lb\<close>: the box of the nodes, root first, with the root at the origin and
  names, uuids and materials left out.
\<close>

definition at_origin :: "object3d \<Rightarrow> object3d" where
  "at_origin obj = obj\<lparr>root := (root obj)\<lparr>position := zero3\<rparr>\<rparr>"

definition geometric :: "node \<Rightarrow> node" where
  "geometric n = n\<lparr>uuid := [], name := [], material := None\<rparr>"

definition geometry_of :: "object3d \<Rightarrow> node list" where
  "geometry_of obj = map geometric (traverse (at_origin obj))"

definition setFromObject :: "(node list \<Rightarrow> box3 option) \<Rightarrow> object3d \<Rightarrow> box3 option" where
  "setFromObject lb obj = map_option (translate (position (root obj))) (lb (geometry_of obj))"

text \<open>
  The box the library computes for an object whose nodes are not rotated and whose
  descendants are children of the root: every placeholder the program builds is one.
\<close>

text \<open>
  The bounding box of a geometry in its own frame. A loaded \<open>BufferGeometry\<close> is
  given by the corners of its bounding box.
\<close>

definition geometry_box :: "geometry \<Rightarrow> box3" where
  "geometry_box g =
     (case g of
        BoxGeometry w hh d \<Rightarrow>
          \<lparr>bmin = Vector3 (- (w / 2)) (- (hh / 2)) (- (d / 2)), bmax = Vector3 (w / 2) (hh / 2) (d / 2)\<rparr>
      | CylinderGeometry rt rb hh \<Rightarrow>
          \<lparr>bmin = Vector3 (- max rt rb) (- (hh / 2)) (- max rt rb),
           bmax = Vector3 (max rt rb) (hh / 2) (max rt rb)\<rparr>
      | BufferGeometry lo hi \<Rightarrow> \<lparr>bmin = lo, bmax = hi\<rparr>)"

definition scaled_interval :: "real \<Rightarrow> real \<Rightarrow> real \<Rightarrow> real \<times> real" where
  "scaled_interval s lo hi = (min (s * lo) (s * hi), max (s * lo) (s * hi))"

definition scaled_box :: "vec3 \<Rightarrow> vec3 \<Rightarrow> box3 \<Rightarrow> box3" where
  "scaled_box s c b =
     (let ix = scaled_interval (vx s) (vx c + vx (bmin b)) (vx c + vx (bmax b));
          iy = scaled_interval (vy s) (vy c + vy (bmin b)) (vy c + vy (bmax b));
          iz = scaled_interval (vz s) (vz c + vz (bmin b)) (vz c + vz (bmax b))
      in \<lparr>bmin = Vector3 (fst ix) (fst iy) (fst iz), bmax = Vector3 (snd ix) (snd iy) (snd iz)\<rparr>)"

definition union3 :: "box3 option \<Rightarrow> box3 \<Rightarrow> box3 option" where
  "union3 a b = (case a of
                   None \<Rightarrow> Some b
                 | Some c \<Rightarrow> Some \<lparr>bmin = Vector3 (min (vx (bmin c)) (vx (bmin b)))
                                                  (min (vy (bmin c)) (vy (bmin b)))
                                                  (min (vz (bmin c)) (vz (bmin b))),
                                   bmax = Vector3 (max (vx (bmax c)) (vx (bmax b)))
                                                  (max (vy (bmax c)) (vy (bmax b)))
                                                  (max (vz (bmax c)) (vz (bmax b)))\<rparr>)"

definition expand_by_node :: "vec3 \<Rightarrow> box3 option \<Rightarrow> node \<Rightarrow> box3 option" where
  "expand_by_node s acc n =
     (case geometry n of
        None \<Rightarrow> acc
      | Some g \<Rightarrow> union3 acc (scaled_box s (position n) (geometry_box g)))"

definition primitive_box :: "node list \<Rightarrow> box3 option" where
  "primitive_box ns = (case ns of [] \<Rightarrow> None | r # ds \<Rightarrow> foldl (expand_by_node (scale r)) None (r # ds))"

section \<open>Room\<close>

definition ROOM_CONFIG_width :: real where
  "ROOM_CONFIG_width = 10"

definition ROOM_CONFIG_depth :: real where
  "ROOM_CONFIG_depth = 10"

section \<open>PlacementSystem\<close>

text \<open>A catalog entry as the palette hands it to the placement: name, asset path, id.\<close>

record catalog_entry =
  ce_name :: string
  ce_path :: string
  ce_id :: int

definition as_furniture_data :: "catalog_entry \<Rightarrow> furniture_data" where
  "as_furniture_data e = \<lparr>fd_name = Some (ce_name e), fd_path = Some (ce_path e), fd_id = Some (ce_id e)\<rparr>"

text \<open>The \<open>%\<close> of JavaScript on integers: the sign follows the dividend.\<close>

definition js_rem :: "int \<Rightarrow> int \<Rightarrow> int" where
  "js_rem a b = sgn a * (\<bar>a\<bar> mod \<bar>b\<bar>)"

text \<open>
  \<open>_createPrimitiveByType\<close>. \<open>us k\<close> is the k-th uuid the library draws: the group's is
  \<open>us 0\<close>, the meshes follow in the order they are created.
\<close>

definition createPrimitiveByType ::
  "string \<Rightarrow> catalog_entry \<Rightarrow> (nat \<Rightarrow> string) \<Rightarrow> heap \<Rightarrow> object3d \<times> heap" where
  "createPrimitiveByType type entry us h =
     (let hue = js_rem (ce_id entry * 37) 360;
          col = HSL (real_of_int hue / 360) 0.6 0.5;
          (mat, h1) = alloc (MeshStandardMaterial col 0.7 0.1) h;
          group = Group (us 0)
      in
        if type = ''chair'' then
          let (legMat, h2) = alloc (MeshStandardMaterial (Hex 0x4a4a4a) 1 0) h1
          in (\<lparr>root = group, userData = empty_user_data, descendants =
                [placed_at (Mesh (us 1) (BoxGeometry 0.5 0.05 0.5) mat) (Vector3 0 0.45 0),
                 placed_at (Mesh (us 2) (BoxGeometry 0.5 0.5 0.05) mat) (Vector3 0 0.7 (- 0.22)),
                 placed_at (Mesh (us 3) (CylinderGeometry 0.02 0.02 0.45) legMat) (Vector3 (- 0.2) 0.225 (- 0.2)),
                 placed_at (Mesh (us 4) (CylinderGeometry 0.02 0.02 0.45) legMat) (Vector3 0.2 0.225 (- 0.2)),
                 placed_at (Mesh (us 5) (CylinderGeometry 0.02 0.02 0.45) legMat) (Vector3 (- 0.2) 0.225 0.2),
                 placed_at (Mesh (us 6) (CylinderGeometry 0.02 0.02 0.45) legMat) (Vector3 0.2 0.225 0.2)]\<rparr>, h2)
        else if type = ''table'' then
          let (tLegMat, h2) = alloc (MeshStandardMaterial (Hex 0x5D4037) 1 0) h1
          in (\<lparr>root = group, userData = empty_user_data, descendants =
                [placed_at (Mesh (us 1) (BoxGeometry 1.2 0.05 0.8) mat) (Vector3 0 0.75 0),
                 placed_at (Mesh (us 2) (CylinderGeometry 0.03 0.03 0.73) tLegMat) (Vector3 (- 0.5) 0.365 (- 0.3)),
                 placed_at (Mesh (us 3) (CylinderGeometry 0.03 0.03 0.73) tLegMat) (Vector3 0.5 0.365 (- 0.3)),
                 placed_at (Mesh (us 4) (CylinderGeometry 0.03 0.03 0.73) tLegMat) (Vector3 (- 0.5) 0.365 0.3),
                 placed_at (Mesh (us 5) (CylinderGeometry 0.03 0.03 0.73) tLegMat) (Vector3 0.5 0.365 0.3)]\<rparr>, h2)
        else if type = ''couch'' then
          (\<lparr>root = group, userData = empty_user_data, descendants =
              [placed_at (Mesh (us 1) (BoxGeometry 2 0.4 0.9) mat) (Vector3 0 0.3 0),
               placed_at (Mesh (us 2) (BoxGeometry 2 0.5 0.15) mat) (Vector3 0 0.55 (- 0.38)),
               placed_at (Mesh (us 3) (BoxGeometry 0.15 0.3 0.9) mat) (Vector3 (- 0.92) 0.45 0),
               placed_at (Mesh (us 4) (BoxGeometry 0.15 0.3 0.9) mat) (Vector3 0.92 0.45 0)]\<rparr>, h1)
        else if type = ''bed'' then
          let (mattressMat, h2) = alloc (MeshStandardMaterial (Hex 0xf5f5dc) 1 0) h1;
              (frameMat, h3) = alloc (MeshStandardMaterial (Hex 0x8B4513) 1 0) h2;
              (headMat, h4) = alloc (MeshStandardMaterial (Hex 0x8B4513) 1 0) h3
          in (\<lparr>root = group, userData = empty_user_data, descendants =
                [placed_at (Mesh (us 1) (BoxGeometry 1.8 0.3 2.2) mattressMat) (Vector3 0 0.35 0),
                 placed_at (Mesh (us 2) (BoxGeometry 1.9 0.2 2.3) frameMat) (Vector3 0 0.1 0),
                 placed_at (Mesh (us 3) (BoxGeometry 1.9 0.8 0.1) headMat) (Vector3 0 0.6 (- 1.1))]\<rparr>, h4)
        else if type = ''cabinet'' then
          let (doorMat, h2) = alloc (MeshStandardMaterial (Scaled col 0.8) 1 0) h1
          in (\<lparr>root = group, userData = empty_user_data, descendants =
                [placed_at (Mesh (us 1) (BoxGeometry 0.8 1.2 0.5) mat) (Vector3 0 0.6 0),
                 placed_at (Mesh (us 2) (BoxGeometry 0.35 1.1 0.02) doorMat) (Vector3 (- 0.18) 0.6 0.26),
                 placed_at (Mesh (us 3) (BoxGeometry 0.35 1.1 0.02) doorMat) (Vector3 0.18 0.6 0.26)]\<rparr>, h2)
        else
          (\<lparr>root = group, userData = empty_user_data, descendants =
              [placed_at (Mesh (us 1) (BoxGeometry 0.6 0.6 0.6) mat) (Vector3 0 0.3 0)]\<rparr>, h1))"

text \<open>The type \<open>_createPrimitiveFallback\<close> derives from the entry's name.\<close>

definition fallback_type :: "string \<Rightarrow> string" where
  "fallback_type nm =
     (let lname = toLowerCase nm in
      if includes_str lname ''chair'' \<or> includes_str lname ''arm'' then ''chair''
      else if includes_str lname ''table'' then ''table''
      else if includes_str lname ''couch'' \<or> includes_str lname ''sofa'' then ''couch''
      else if includes_str lname ''bed'' then ''bed''
      else if includes_str lname ''cabinet'' \<or> includes_str lname ''cupboard'' then ''cabinet''
      else ''default'')"

definition createPrimitiveFallback :: "catalog_entry \<Rightarrow> (nat \<Rightarrow> string) \<Rightarrow> heap \<Rightarrow> object3d \<times> heap" where
  "createPrimitiveFallback entry us h =
     createPrimitiveByType (fallback_type (ce_name entry)) entry us h"

definition targetHeight :: "string \<Rightarrow> real" where
  "targetHeight nm =
     (let lname = toLowerCase nm in
      if includes_str lname ''chair'' then 0.9
      else if includes_str lname ''table'' then 0.75
      else if includes_str lname ''couch'' \<or> includes_str lname ''sofa'' then 0.8
      else if includes_str lname ''bed'' then 0.6
      else if includes_str lname ''cabinet'' \<or> includes_str lname ''cupboard'' then 1.2
      else if includes_str lname ''tv'' then 0.6
      else if includes_str lname ''fridge'' then 1.8
      else if includes_str lname ''wardrobe'' then 2.0
      else 1.0)"

definition setScalar :: "real \<Rightarrow> object3d \<Rightarrow> object3d" where
  "setScalar c obj = obj\<lparr>root := (root obj)\<lparr>scale := Vector3 c c c\<rparr>\<rparr>"

definition set_position_y :: "real \<Rightarrow> object3d \<Rightarrow> object3d" where
  "set_position_y y obj = obj\<lparr>root := (root obj)\<lparr>position := (position (root obj))\<lparr>vy := y\<rparr>\<rparr>\<rparr>"

text \<open>\<open>_applyScale\<close>: normalise the height, then lift the model onto the floor.\<close>

definition normalize_scale :: "(node list \<Rightarrow> box3 option) \<Rightarrow> object3d \<Rightarrow> catalog_entry \<Rightarrow> object3d" where
  "normalize_scale lb model entry =
     (let size = getSize (setFromObject lb model);
          target = targetHeight (ce_name entry)
      in if vy size > 0.01 then
           (let currentHeight = vy size in
            if \<bar>currentHeight - target\<bar> > 0.3 then
              (let s = target / currentHeight;
                   clampedScale = max 0.1 (min 3 s)
               in setScalar clampedScale model)
            else model)
         else model)"

definition applyScale :: "(node list \<Rightarrow> box3 option) \<Rightarrow> object3d \<Rightarrow> catalog_entry \<Rightarrow> object3d" where
  "applyScale lb model entry =
     (let model' = normalize_scale lb model entry
      in case setFromObject lb model' of
           None \<Rightarrow> model'
         | Some newBox \<Rightarrow>
             (let minY = vy (bmin newBox)
              in if minY < 0 then set_position_y (- minY) model' else model'))"

text \<open>
  The model \<open>_placeFurniture\<close> builds: the loaded asset (\<open>loaded\<close>, \<open>None\<close> when the load
  fails) or the placeholder, put at the pointer's floor position with \<open>y = 0\<close>, scaled,
  and given its metadata. \<open>i\<close> is the new instance id, \<open>nm\<close> the name built from it.
\<close>

definition place_model ::
  "(node list \<Rightarrow> box3 option) \<Rightarrow> object3d option \<Rightarrow> catalog_entry \<Rightarrow> vec3 \<Rightarrow> (nat \<Rightarrow> string) \<Rightarrow> real
     \<Rightarrow> string \<Rightarrow> heap \<Rightarrow> object3d \<times> heap" where
  "place_model lb loaded entry pos us i nm h =
     (let (model, h') = (case loaded of
                           Some m \<Rightarrow> (m, h)
                         | None \<Rightarrow> createPrimitiveFallback entry us h);
          model1 = model\<lparr>root := (root model)\<lparr>position := pos\<lparr>vy := 0\<rparr>\<rparr>\<rparr>;
          model2 = applyScale lb model1 entry;
          model3 = model2\<lparr>userData := empty_user_data
                     \<lparr>ud_id := Some i, ud_furnitureData := Some (as_furniture_data entry),
                      isSelected := False\<rparr>\<rparr>
      in (model3\<lparr>root := (root model3)\<lparr>name := nm\<rparr>\<rparr>, h'))"

text \<open>
  The lowest world-space y of an object, and its lowest point measured from its own
  origin.
\<close>

definition min_world_y :: "(node list \<Rightarrow> box3 option) \<Rightarrow> object3d \<Rightarrow> real option" where
  "min_world_y lb obj = map_option (vy \<circ> bmin) (setFromObject lb obj)"


section \<open>The application state\<close>

text \<open>
  Placed items are objects with identity: the systems hold references to them and
  compare references with \<open>===\<close>. An item is named by its place in \<open>items\<close>.
\<close>

type_synonym obj_id = nat

record saved_emissive =
  se_emissive :: "rgb option"
  se_emissiveIntensity :: "real option"

record saved_color =
  sc_uuid :: string
  sc_color :: "rgb option"
  sc_metalness :: "real option"
  sc_roughness :: "real option"
  sc_opacity :: "real option"

text \<open>
  One record for the state the systems share: the material store, the placed items and
  the furniture container, the fields of \<open>AppState\<close> (\<open>state_\<close>), of the
  \<open>PlacementSystem\<close> (\<open>placement_\<close>), of the \<open>SelectionSystem\<close>, of the
  \<open>PropertiesPanel\<close> (\<open>panel_\<close>, \<open>originalColors\<close>), and the \<open>enabled\<close> flag of the
  orbit controls.
\<close>

record world =
  store :: heap
  items :: "obj_id \<Rightarrow> object3d"
  next_obj :: obj_id
  container :: "obj_id list"
  state_selectedObject :: "obj_id option"
  state_placedObjects :: "obj_id list"
  state_isLoading :: bool
  placement_placedObjects :: "obj_id list"
  placement_isLoading :: bool
  selectedObject :: "obj_id option"
  highlightHelper :: "obj_id option"
  isDragging :: bool
  dragOffset :: vec3
  dragStartPosition :: vec3
  originalMaterials :: "string \<rightharpoonup> saved_emissive"
  cursor :: string
  panel_selectedObject :: "obj_id option"
  originalColors :: "string \<rightharpoonup> saved_color list"
  controls_enabled :: bool

text \<open>\<open>_placeFurniture\<close>: build the model and register it.\<close>

definition placeFurniture ::
  "(node list \<Rightarrow> box3 option) \<Rightarrow> object3d option \<Rightarrow> catalog_entry \<Rightarrow> vec3 \<Rightarrow> (nat \<Rightarrow> string) \<Rightarrow> real
     \<Rightarrow> string \<Rightarrow> world \<Rightarrow> world" where
  "placeFurniture lb loaded entry pos us i nm w =
     (let (model, h') = place_model lb loaded entry pos us i nm (store w);
          k = next_obj w
      in w\<lparr>store := h',
           items := (items w)(k := model),
           next_obj := Suc k,
           container := container w @ [k],
           placement_placedObjects := placement_placedObjects w @ [k],
           state_placedObjects := state_placedObjects w @ [k],
           placement_isLoading := False,
           state_isLoading := False\<rparr>)"

section \<open>SelectionSystem\<close>

definition set_isSelected :: "obj_id \<Rightarrow> bool \<Rightarrow> world \<Rightarrow> world" where
  "set_isSelected obj b w =
     w\<lparr>items := (items w)(obj := (items w obj)\<lparr>userData := (userData (items w obj))\<lparr>isSelected := b\<rparr>\<rparr>)\<rparr>"

definition removeHighlight :: "world \<Rightarrow> world" where
  "removeHighlight w = (if highlightHelper w \<noteq> None then w\<lparr>highlightHelper := None\<rparr> else w)"

definition createHighlight :: "obj_id \<Rightarrow> world \<Rightarrow> world" where
  "createHighlight obj w = (removeHighlight w)\<lparr>highlightHelper := Some obj\<rparr>"

definition selectedEmissive :: nat where
  "selectedEmissive = 0x003300"

text \<open>The callback of \<open>_applyHighlightMaterial\<close> on one node.\<close>

definition highlight_node ::
  "node \<Rightarrow> (string \<rightharpoonup> saved_emissive) \<times> heap \<Rightarrow> (string \<rightharpoonup> saved_emissive) \<times> heap" where
  "highlight_node child s =
     (case material child of
        None \<Rightarrow> s
      | Some r \<Rightarrow>
          if \<not> isMesh child then s
          else
            let om = fst s; h = snd s;
                om' = (if om (uuid child) = None
                       then om(uuid child \<mapsto> \<lparr>se_emissive = emissive (mats h r),
                                              se_emissiveIntensity = emissiveIntensity (mats h r)\<rparr>)
                       else om);
                h' = (if emissive (mats h r) \<noteq> None
                      then modify r (\<lambda>m. m\<lparr>emissive := Some (Hex selectedEmissive),
                                               emissiveIntensity := Some 0.5\<rparr>) h
                      else h)
            in (om', h'))"

definition applyHighlightMaterial :: "obj_id \<Rightarrow> world \<Rightarrow> world" where
  "applyHighlightMaterial obj w =
     (let s = fold highlight_node (traverse (items w obj)) (originalMaterials w, store w)
      in w\<lparr>originalMaterials := fst s, store := snd s\<rparr>)"

text \<open>The callback of \<open>_restoreOriginalMaterials\<close> on one node.\<close>

definition restore_node :: "(string \<rightharpoonup> saved_emissive) \<Rightarrow> node \<Rightarrow> heap \<Rightarrow> heap" where
  "restore_node om child h =
     (case material child of
        None \<Rightarrow> h
      | Some r \<Rightarrow>
          if \<not> isMesh child then h
          else
            case om (uuid child) of
              None \<Rightarrow> h
            | Some original \<Rightarrow>
                if emissive (mats h r) \<noteq> None \<and> se_emissive original \<noteq> None
                then modify r (\<lambda>m. m\<lparr>emissive := se_emissive original,
                                         emissiveIntensity :=
                                           Some (case se_emissiveIntensity original of
                                                   Some v \<Rightarrow> v | None \<Rightarrow> 0)\<rparr>) h
                else h)"

definition restoreOriginalMaterials :: "obj_id \<Rightarrow> world \<Rightarrow> world" where
  "restoreOriginalMaterials obj w =
     w\<lparr>store := fold (restore_node (originalMaterials w)) (traverse (items w obj)) (store w),
       originalMaterials := Map.empty\<rparr>"

text \<open>What \<open>_updateSelection\<close>, \<open>select\<close> and \<open>deselect\<close> do to the item they leave.\<close>

definition unhighlight :: "obj_id \<Rightarrow> world \<Rightarrow> world" where
  "unhighlight old w = set_isSelected old False (restoreOriginalMaterials old (removeHighlight w))"

definition updateSelection :: "obj_id option \<Rightarrow> world \<Rightarrow> world" where
  "updateSelection obj w =
     (if obj = selectedObject w then w
      else
        case obj of
          Some ob \<Rightarrow>
            (let w1 = (case selectedObject w of Some old \<Rightarrow> unhighlight old w | None \<Rightarrow> w);
                 w2 = set_isSelected ob True (w1\<lparr>selectedObject := Some ob\<rparr>)
             in applyHighlightMaterial ob (createHighlight ob w2))
        | None \<Rightarrow>
            (case selectedObject w of
               Some old \<Rightarrow> (unhighlight old w)\<lparr>selectedObject := None\<rparr>
             | None \<Rightarrow> w))"

text \<open>
  \<open>AppState.set('selectedObject', value)\<close>: store the value and notify the subscribers,
  the properties panel and the selection system.
\<close>

definition set_state_selectedObject :: "obj_id option \<Rightarrow> world \<Rightarrow> world" where
  "set_state_selectedObject v w =
     updateSelection v (w\<lparr>state_selectedObject := v, panel_selectedObject := v\<rparr>)"

definition deselect :: "world \<Rightarrow> world" where
  "deselect w =
     (case selectedObject w of
        None \<Rightarrow> w
      | Some old \<Rightarrow> set_state_selectedObject None ((unhighlight old w)\<lparr>selectedObject := None\<rparr>))"

definition select :: "obj_id \<Rightarrow> world \<Rightarrow> world" where
  "select object w =
     (let w1 = (if selectedObject w \<noteq> None \<and> selectedObject w \<noteq> Some object then deselect w else w);
          w2 = set_isSelected object True (w1\<lparr>selectedObject := Some object\<rparr>);
          w3 = applyHighlightMaterial object (createHighlight object w2)
      in set_state_selectedObject (Some object) w3)"

definition startDrag :: "vec3 \<Rightarrow> world \<Rightarrow> world" where
  "startDrag intersectPoint w =
     (case selectedObject w of
        None \<Rightarrow> w
      | Some ob \<Rightarrow>
          w\<lparr>isDragging := True,
            dragStartPosition := position (root (items w ob)),
            dragOffset := (sub3 intersectPoint (position (root (items w ob))))\<lparr>vy := 0\<rparr>,
            cursor := ''grabbing''\<rparr>)"

definition endDrag :: "world \<Rightarrow> world" where
  "endDrag w = w\<lparr>isDragging := False, cursor := ''auto''\<rparr>"

definition constrainToRoom :: "(node list \<Rightarrow> box3 option) \<Rightarrow> vec3 \<Rightarrow> world \<Rightarrow> vec3" where
  "constrainToRoom lb pos w =
     (let margin = 0.3;
          halfWidth = (ROOM_CONFIG_width / 2) - margin;
          halfDepth = (ROOM_CONFIG_depth / 2) - margin;
          size = (case selectedObject w of
                    None \<Rightarrow> zero3
                  | Some ob \<Rightarrow> getSize (setFromObject lb (items w ob)));
          objectHalfWidth = vx size / 2;
          objectHalfDepth = vz size / 2
      in Vector3 (max (- halfWidth + objectHalfWidth) (min (halfWidth - objectHalfWidth) (vx pos)))
                 (vy pos)
                 (max (- halfDepth + objectHalfDepth) (min (halfDepth - objectHalfDepth) (vz pos))))"

text \<open>
  \<open>_onMouseDown\<close>. The event carries the button, whether the click is on the UI, and
  what the raycast into the container hits: the placed item the hit mesh belongs to and
  the hit point, or nothing.
\<close>

definition onMouseDown :: "nat \<Rightarrow> bool \<Rightarrow> (obj_id \<times> vec3) option \<Rightarrow> world \<Rightarrow> world" where
  "onMouseDown button onUI hit w =
     (if button \<noteq> 0 then w
      else if onUI then w
      else
        case hit of
          Some (furniture, point) \<Rightarrow>
            if Some furniture = selectedObject w then startDrag point w
            else select furniture w
        | None \<Rightarrow> if \<not> isDragging w then deselect w else w)"

text \<open>
  \<open>_onMouseMove\<close>. \<open>hit\<close> is where the pointer's ray meets the floor plane, if it does.
\<close>

definition onMouseMove :: "(node list \<Rightarrow> box3 option) \<Rightarrow> vec3 option \<Rightarrow> world \<Rightarrow> world" where
  "onMouseMove lb hit w =
     (if \<not> isDragging w then w
      else
        case selectedObject w of
          None \<Rightarrow> w
        | Some ob \<Rightarrow>
            case hit of
              None \<Rightarrow> w
            | Some intersectPoint \<Rightarrow>
                (let newPosition = sub3 intersectPoint (dragOffset w);
                     constrainedPos = constrainToRoom lb newPosition w;
                     obj = items w ob
                 in w\<lparr>items := (items w)(ob := obj\<lparr>root := (root obj)
                        \<lparr>position := (position (root obj))\<lparr>vx := vx constrainedPos,
                                                              vz := vz constrainedPos\<rparr>\<rparr>\<rparr>)\<rparr>))"

definition onMouseUp :: "world \<Rightarrow> world" where
  "onMouseUp w = (if isDragging w then endDrag w else w)"

text \<open>The events of a session with the pointer and with the selection interface.\<close>

datatype event =
    MouseDown nat bool "(obj_id \<times> vec3) option"
  | MouseMove "vec3 option"
  | MouseUp
  | Select obj_id
  | Deselect

fun handle :: "(node list \<Rightarrow> box3 option) \<Rightarrow> event \<Rightarrow> world \<Rightarrow> world" where
  "handle lb (MouseDown button onUI hit) w = onMouseDown button onUI hit w"
| "handle lb (MouseMove hit) w = onMouseMove lb hit w"
| "handle lb MouseUp w = onMouseUp w"
| "handle lb (Select obj) w = select obj w"
| "handle lb Deselect w = deselect w"

definition run :: "(node list \<Rightarrow> box3 option) \<Rightarrow> event list \<Rightarrow> world \<Rightarrow> world" where
  "run lb es w = fold (handle lb) es w"

text \<open>The state at start-up: nothing placed, nothing selected, orbit controls enabled.\<close>

definition initial_world :: world where
  "initial_world =
     \<lparr>store = \<lparr>mats = (\<lambda>r. MeshStandardMaterial (Hex 0xffffff) 1 0), next_ref = 0\<rparr>,
      items = (\<lambda>k. \<lparr>root = Group [], userData = empty_user_data, descendants = []\<rparr>),
      next_obj = 0,
      container = [],
      state_selectedObject = None,
      state_placedObjects = [],
      state_isLoading = False,
      placement_placedObjects = [],
      placement_isLoading = False,
      selectedObject = None,
      highlightHelper = None,
      isDragging = False,
      dragOffset = zero3,
      dragStartPosition = zero3,
      originalMaterials = Map.empty,
      cursor = ''auto'',
      panel_selectedObject = None,
      originalColors = Map.empty,
      controls_enabled = True\<rparr>"

section \<open>PropertiesPanel\<close>

text \<open>The entry \<open>_storeOriginalColors\<close> records for one node.\<close>

definition snapshot_node :: "heap \<Rightarrow> node \<Rightarrow> saved_color list" where
  "snapshot_node h child =
     (case material child of
        None \<Rightarrow> []
      | Some r \<Rightarrow>
          if isMesh child then
            [\<lparr>sc_uuid = uuid child, sc_color = color (mats h r), sc_metalness = metalness (mats h r),
              sc_roughness = roughness (mats h r), sc_opacity = opacity (mats h r)\<rparr>]
          else [])"

definition storeOriginalColors :: "world \<Rightarrow> world" where
  "storeOriginalColors w =
     (case panel_selectedObject w of
        None \<Rightarrow> w
      | Some ob \<Rightarrow>
          (let objId = uuid (root (items w ob))
           in if originalColors w objId \<noteq> None then w
              else w\<lparr>originalColors := (originalColors w)
                        (objId \<mapsto> concat (map (snapshot_node (store w)) (traverse (items w ob))))\<rparr>))"

text \<open>\<open>if (!child.material._isCloned) { clone and mark }\<close>.\<close>

definition ensure_cloned :: "node \<Rightarrow> mat_ref \<Rightarrow> heap \<Rightarrow> node \<times> mat_ref \<times> heap" where
  "ensure_cloned child r h = (if \<not> isCloned (mats h r) then clone_material child r h else (child, r, h))"

text \<open>Run a callback of the panel on every node of the selected item.\<close>

definition on_selected :: "(node \<Rightarrow> heap \<Rightarrow> node \<times> heap) \<Rightarrow> world \<Rightarrow> world" where
  "on_selected f w =
     (case panel_selectedObject w of
        None \<Rightarrow> w
      | Some ob \<Rightarrow>
          (let res = traverse_update f (items w ob) (store w)
           in w\<lparr>items := (items w)(ob := fst res), store := snd res\<rparr>))"

definition color_node :: "rgb \<Rightarrow> node \<Rightarrow> heap \<Rightarrow> node \<times> heap" where
  "color_node c child h =
     (case material child of
        None \<Rightarrow> (child, h)
      | Some r \<Rightarrow>
          if \<not> isMesh child then (child, h)
          else
            (let res = ensure_cloned child r h; child' = fst res; r' = fst (snd res); h' = snd (snd res)
             in (child', if color (mats h' r') \<noteq> None then modify r' (\<lambda>m. m\<lparr>color := Some c\<rparr>) h' else h')))"

text \<open>\<open>_applyColor\<close>; the colour string is represented by the colour it denotes.\<close>

definition applyColor :: "rgb \<Rightarrow> world \<Rightarrow> world" where
  "applyColor hexColor w =
     (case panel_selectedObject w of
        None \<Rightarrow> w
      | Some ob \<Rightarrow> on_selected (color_node hexColor) (storeOriginalColors w))"

definition preset_settings :: "string \<Rightarrow> real \<times> real" where
  "preset_settings preset =
     (if preset = ''standard'' then (0.1, 0.8)
      else if preset = ''glossy'' then (0.3, 0.2)
      else if preset = ''matte'' then (0, 1)
      else if preset = ''metallic'' then (0.9, 0.3)
      else (0.1, 0.8))"

definition preset_node :: "real \<Rightarrow> real \<Rightarrow> node \<Rightarrow> heap \<Rightarrow> node \<times> heap" where
  "preset_node mt rg child h =
     (case material child of
        None \<Rightarrow> (child, h)
      | Some r \<Rightarrow>
          if \<not> isMesh child then (child, h)
          else
            (let res = ensure_cloned child r h; child' = fst res; r' = fst (snd res); h' = snd (snd res)
             in (child', modify r'
                   (\<lambda>m. (let m1 = (if metalness m \<noteq> None then m\<lparr>metalness := Some mt\<rparr> else m);
                               m2 = (if roughness m1 \<noteq> None then m1\<lparr>roughness := Some rg\<rparr> else m1)
                           in m2\<lparr>needsUpdate := True\<rparr>)) h')))"

definition applyMaterial :: "string \<Rightarrow> world \<Rightarrow> world" where
  "applyMaterial preset w =
     (case panel_selectedObject w of
        None \<Rightarrow> w
      | Some ob \<Rightarrow>
          on_selected (preset_node (fst (preset_settings preset)) (snd (preset_settings preset)))
            (storeOriginalColors w))"

definition opacity_node :: "real \<Rightarrow> node \<Rightarrow> heap \<Rightarrow> node \<times> heap" where
  "opacity_node op child h =
     (case material child of
        None \<Rightarrow> (child, h)
      | Some r \<Rightarrow>
          if \<not> isMesh child then (child, h)
          else
            (let res = ensure_cloned child r h; child' = fst res; r' = fst (snd res); h' = snd (snd res)
             in (child', modify r' (\<lambda>m. m\<lparr>transparent := (op < 1), opacity := Some op,
                                            needsUpdate := True\<rparr>) h')))"

definition applyOpacity :: "real \<Rightarrow> world \<Rightarrow> world" where
  "applyOpacity op w = on_selected (opacity_node op) w"

text \<open>What \<open>_resetColor\<close> writes into a material from its snapshot entry.\<close>

definition restore_saved :: "saved_color \<Rightarrow> std_material \<Rightarrow> std_material" where
  "restore_saved orig m =
     (let m1 = (if sc_color orig \<noteq> None \<and> color m \<noteq> None then m\<lparr>color := sc_color orig\<rparr> else m);
          m2 = (if sc_metalness orig \<noteq> None then m1\<lparr>metalness := sc_metalness orig\<rparr> else m1);
          m3 = (if sc_roughness orig \<noteq> None then m2\<lparr>roughness := sc_roughness orig\<rparr> else m2);
          m4 = (case sc_opacity orig of
                  None \<Rightarrow> m3
                | Some op \<Rightarrow> m3\<lparr>opacity := Some op, transparent := (op < 1)\<rparr>)
      in m4\<lparr>needsUpdate := True\<rparr>)"

definition reset_node :: "saved_color list \<Rightarrow> node \<Rightarrow> heap \<Rightarrow> heap" where
  "reset_node originalData child h =
     (case material child of
        None \<Rightarrow> h
      | Some r \<Rightarrow>
          if \<not> isMesh child then h
          else
            case find (\<lambda>orig. sc_uuid orig = uuid child) originalData of
              None \<Rightarrow> h
            | Some orig \<Rightarrow> modify r (restore_saved orig) h)"

definition resetColor :: "world \<Rightarrow> world" where
  "resetColor w =
     (case panel_selectedObject w of
        None \<Rightarrow> w
      | Some ob \<Rightarrow>
          (case originalColors w (uuid (root (items w ob))) of
             None \<Rightarrow> w
           | Some originalData \<Rightarrow>
               w\<lparr>store := fold (reset_node originalData) (traverse (items w ob)) (store w)\<rparr>))"

text \<open>
  The inputs the panel binds to its controls: the colour picker and the colour presets
  call \<open>_applyColor\<close>, the material select calls \<open>_applyMaterial\<close>, the opacity slider
  calls \<open>_applyOpacity\<close>.
\<close>

datatype edit = PickColor rgb | PickMaterial string | SlideOpacity real

definition apply_edit :: "edit \<Rightarrow> world \<Rightarrow> world" where
  "apply_edit e w =
     (case e of
        PickColor c \<Rightarrow> applyColor c w
      | PickMaterial p \<Rightarrow> applyMaterial p w
      | SlideOpacity op \<Rightarrow> applyOpacity op w)"

definition apply_edits :: "edit list \<Rightarrow> world \<Rightarrow> world" where
  "apply_edits es w = fold apply_edit es w"

section \<open>Saving and loading again\<close>



section \<open>Auxiliary notions\<close>

text \<open>
  The snapshot entry a reset writes into the material \<open>r\<close> when it visits a node, and
  the effect of the visit on that material.
\<close>

definition applied :: "saved_color list \<Rightarrow> mat_ref \<Rightarrow> node \<Rightarrow> saved_color option" where
  "applied originalData r child =
     (if material child = Some r \<and> isMesh child
      then find (\<lambda>orig. sc_uuid orig = uuid child) originalData else None)"

definition reset_step :: "saved_color list \<Rightarrow> mat_ref \<Rightarrow> node \<Rightarrow> std_material \<Rightarrow> std_material" where
  "reset_step originalData r child m =
     (case applied originalData r child of None \<Rightarrow> m | Some orig \<Rightarrow> restore_saved orig m)"

text \<open>
  The inputs whose handler calls \<open>_storeOriginalColors\<close> before it changes a material.
\<close>

definition takes_snapshot :: "edit \<Rightarrow> bool" where
  "takes_snapshot e = (case e of SlideOpacity op \<Rightarrow> False | PickColor c \<Rightarrow> True | PickMaterial p \<Rightarrow> True)"

text \<open>
  The four channels a reset restores: colour, metalness, roughness and opacity; those of
  a material, those of a snapshot entry, and those of every node of an item, in traversal
  order (\<open>None\<close> for a node that is not a mesh or has no material).
\<close>

type_synonym chans = "rgb option \<times> real option \<times> real option \<times> real option"

definition mchans :: "std_material \<Rightarrow> chans" where
  "mchans m = (color m, metalness m, roughness m, opacity m)"

definition schans :: "saved_color \<Rightarrow> chans" where
  "schans s = (sc_color s, sc_metalness s, sc_roughness s, sc_opacity s)"

definition channels :: "heap \<Rightarrow> node \<Rightarrow> chans option" where
  "channels h child =
     (case material child of
        None \<Rightarrow> None
      | Some r \<Rightarrow> if isMesh child then Some (mchans (mats h r)) else None)"

definition mesh_channels :: "world \<Rightarrow> obj_id \<Rightarrow> chans option list" where
  "mesh_channels w ob = map (channels (store w)) (traverse (items w ob))"

text \<open>
  Notions for the proof that a reset undoes the edits. A material fits channel values
  when it has a colour, a metalness and a roughness exactly where they have, and both have
  an opacity. The three callbacks of the panel have one shape: clone the material unless
  it is marked as cloned, then change it. A node is settled, for an assignment \<open>g\<close> of
  channel values to materials and a snapshot \<open>S\<close>, when its material is in the store and
  fits \<open>g\<close>, and the snapshot entry found under the node's uuid holds the values of \<open>g\<close>.
\<close>

definition fits :: "chans \<Rightarrow> std_material \<Rightarrow> bool" where
  "fits c m =
     ((color m = None) = (fst c = None)
      \<and> (metalness m = None) = (fst (snd c) = None)
      \<and> (roughness m = None) = (fst (snd (snd c)) = None)
      \<and> opacity m \<noteq> None \<and> snd (snd (snd c)) \<noteq> None)"

definition keeps :: "(std_material \<Rightarrow> std_material) \<Rightarrow> bool" where
  "keeps \<phi> = (\<forall>c m. fits c m \<longrightarrow> fits c (\<phi> m))"

definition edit_node :: "(std_material \<Rightarrow> std_material) \<Rightarrow> node \<Rightarrow> heap \<Rightarrow> node \<times> heap" where
  "edit_node \<phi> child h =
     (case material child of
        None \<Rightarrow> (child, h)
      | Some r \<Rightarrow>
          if \<not> isMesh child then (child, h)
          else (let res = ensure_cloned child r h
                in (fst res, modify (fst (snd res)) \<phi> (snd (snd res)))))"

definition settled :: "(mat_ref \<Rightarrow> chans) \<Rightarrow> saved_color list \<Rightarrow> heap \<Rightarrow> node \<Rightarrow> bool" where
  "settled g S h n =
     (\<forall>r. isMesh n \<and> material n = Some r \<longrightarrow>
        r < next_ref h \<and> fits (g r) (mats h r)
        \<and> (\<exists>orig. find (\<lambda>s. sc_uuid s = uuid n) S = Some orig \<and> schans orig = g r))"

definition same_shape :: "node \<Rightarrow> node \<Rightarrow> bool" where
  "same_shape n' n = (uuid n' = uuid n \<and> isMesh n' = isMesh n \<and> (material n' = None) = (material n = None))"

text \<open>
  What holds of the selected item \<open>ob\<close> from the first edit that took the snapshot \<open>S\<close> of
  the nodes \<open>ns0\<close> on.
\<close>

definition snapshot_inv :: "saved_color list \<Rightarrow> node list \<Rightarrow> obj_id \<Rightarrow> world \<Rightarrow> bool" where
  "snapshot_inv S ns0 ob w =
     (panel_selectedObject w = Some ob \<and> originalColors w (uuid (hd ns0)) = Some S
      \<and> list_all2 same_shape (traverse (items w ob)) ns0
      \<and> (\<exists>g. \<forall>n\<in>set (traverse (items w ob)). settled g S (store w) n))"

text \<open>
  The delta expected in a second save for a mesh of the rebuilt object that the saved
  delta \<open>md\<close> names, \<open>m\<close> being the material the mesh had when it was built: the mesh is
  identified by its name (by its uuid when it has no name) and every channel has the value
  saved in \<open>md\<close>; a channel \<open>md\<close> does not give, and the colour of a material that has no
  colour, stay as \<open>m\<close> has them.
\<close>

definition carried :: "material_mod \<Rightarrow> std_material \<Rightarrow> node \<Rightarrow> material_mod" where
  "carried md m child =
     \<lparr>childName = (if name child \<noteq> [] then name child else uuid child),
      mod_color = (if mod_color md \<noteq> None \<and> color m \<noteq> None then mod_color md else color m),
      mod_metalness = (if mod_metalness md \<noteq> None then mod_metalness md else metalness m),
      mod_roughness = (if mod_roughness md \<noteq> None then mod_roughness md else roughness m),
      mod_opacity = (if mod_opacity md \<noteq> None then mod_opacity md else opacity m)\<rparr>"

text \<open>
  What a second save is expected to record for a node of the rebuilt object, given the
  saved deltas \<open>ms\<close>: for a mesh that a delta names (by name or uuid, the first such
  delta), that delta; for a mesh that no delta names, a delta only if its own material is
  marked as cloned.
\<close>

definition reapplied :: "material_mod list \<Rightarrow> heap \<Rightarrow> node \<Rightarrow> material_mod list" where
  "reapplied ms h child =
     (case material child of
        None \<Rightarrow> []
      | Some r \<Rightarrow>
          if \<not> isMesh child then []
          else
            case find (\<lambda>m. childName m = name child \<or> childName m = uuid child) ms of
              None \<Rightarrow> (if isCloned (mats h r)
                        then [\<lparr>childName = (if name child \<noteq> [] then name child else uuid child),
                               mod_color = color (mats h r), mod_metalness = metalness (mats h r),
                               mod_roughness = roughness (mats h r), mod_opacity = opacity (mats h r)\<rparr>]
                        else [])
            | Some md \<Rightarrow> [carried md (mats h r) child])"





section \<open>Example data\<close>

definition heap0 :: heap where
  "heap0 = \<lparr>mats = (\<lambda>r. MeshStandardMaterial (Hex 0xffffff) 1 0), next_ref = 0\<rparr>"

text \<open>Two supplies of uuids.\<close>

definition uuids :: "nat \<Rightarrow> string" where
  "uuids k = (if k = 0 then ''u0'' else if k = 1 then ''u1'' else if k = 2 then ''u2''
              else if k = 3 then ''u3'' else if k = 4 then ''u4'' else if k = 5 then ''u5''
              else if k = 6 then ''u6'' else ''u7'')"

definition sofa_entry :: catalog_entry where
  "sofa_entry = \<lparr>ce_name = ''Sofa'', ce_path = ''couch01'', ce_id = 16\<rparr>"

definition chair_entry :: catalog_entry where
  "chair_entry = \<lparr>ce_name = ''Chair'', ce_path = ''chair01'', ce_id = 12\<rparr>"

definition uuids' :: "nat \<Rightarrow> string" where
  "uuids' k = (if k = 0 then ''v0'' else if k = 1 then ''v1'' else if k = 2 then ''v2''
               else if k = 3 then ''v3'' else if k = 4 then ''v4'' else if k = 5 then ''v5''
               else if k = 6 then ''v6'' else ''v7'')"

text \<open>
  A room with two placed items whose assets did not load: the placeholder of a chair
  (item 0) and the placeholder of a sofa (item 1).
\<close>

definition chair_world :: world where
  "chair_world =
     placeFurniture primitive_box None chair_entry (Vector3 1 0 2) uuids 1 ''Furniture_Chair_1'' initial_world"

definition two_items_world :: world where
  "two_items_world =
     placeFurniture primitive_box None sofa_entry (Vector3 (- 2) 0 (- 1)) uuids' 2 ''Furniture_Sofa_2'' chair_world"

text \<open>The nodes of the two placed items, in traversal order.\<close>

definition chair_nodes :: "node list" where
 "chair_nodes = [(Group ''u0'')\<lparr>name := ''Furniture_Chair_1'', position := Vector3 1 0 2\<rparr>,
    placed_at (Mesh ''u1'' (BoxGeometry 0.5 0.05 0.5) 0) (Vector3 0 0.45 0),
    placed_at (Mesh ''u2'' (BoxGeometry 0.5 0.5 0.05) 0) (Vector3 0 0.7 (- 0.22)),
    placed_at (Mesh ''u3'' (CylinderGeometry 0.02 0.02 0.45) 1) (Vector3 (- 0.2) 0.225 (- 0.2)),
    placed_at (Mesh ''u4'' (CylinderGeometry 0.02 0.02 0.45) 1) (Vector3 0.2 0.225 (- 0.2)),
    placed_at (Mesh ''u5'' (CylinderGeometry 0.02 0.02 0.45) 1) (Vector3 (- 0.2) 0.225 0.2),
    placed_at (Mesh ''u6'' (CylinderGeometry 0.02 0.02 0.45) 1) (Vector3 0.2 0.225 0.2)]"

definition sofa_nodes :: "node list" where
 "sofa_nodes = [(Group ''v0'')\<lparr>name := ''Furniture_Sofa_2'', position := Vector3 (- 2) 0 (- 1)\<rparr>,
    placed_at (Mesh ''v1'' (BoxGeometry 2 0.4 0.9) 2) (Vector3 0 0.3 0),
    placed_at (Mesh ''v2'' (BoxGeometry 2 0.5 0.15) 2) (Vector3 0 0.55 (- 0.38)),
    placed_at (Mesh ''v3'' (BoxGeometry 0.15 0.3 0.9) 2) (Vector3 (- 0.92) 0.45 0),
    placed_at (Mesh ''v4'' (BoxGeometry 0.15 0.3 0.9) 2) (Vector3 0.92 0.45 0)]"

text \<open>Click the chair, then click the sofa.\<close>

definition after_switch :: world where
  "after_switch =
     run primitive_box [MouseDown 0 False (Some (0, Vector3 1 (1 / 2) 2)),
                        MouseDown 0 False (Some (1, Vector3 (- 2) (1 / 2) (- 1)))] two_items_world"

text \<open>Click the chair, then press the pointer on it again.\<close>

definition after_grab :: world where
  "after_grab =
     run primitive_box [MouseDown 0 False (Some (0, Vector3 1 (1 / 2) 2)),
                        MouseDown 0 False (Some (0, Vector3 1 (1 / 2) 2))] chair_world"

text \<open>
  A carpet asset of 4 x 0.02 x 4, placed at the centre of the room, selected and grabbed.
\<close>

definition carpet_asset :: object3d where
  "carpet_asset =
     \<lparr>root = Group ''c0'', userData = empty_user_data,
      descendants = [Mesh ''c1'' (BufferGeometry (Vector3 (- 2) 0 (- 2)) (Vector3 2 (1 / 50) 2)) 0]\<rparr>"

definition carpet_entry :: catalog_entry where
  "carpet_entry = \<lparr>ce_name = ''Carpet'', ce_path = ''carpet01'', ce_id = 40\<rparr>"

definition carpet_world :: world where
  "carpet_world =
     placeFurniture primitive_box (Some carpet_asset) carpet_entry (Vector3 0 0 0) uuids 1
       ''Furniture_Carpet_1'' initial_world"

definition dragging_carpet :: world where
  "dragging_carpet =
     run primitive_box [MouseDown 0 False (Some (0, Vector3 0 0 0)),
                        MouseDown 0 False (Some (0, Vector3 0 0 0))] carpet_world"

text \<open>The chair, selected, painted red, and the state after a reset.\<close>

definition selected_chair :: world where
  "selected_chair = run primitive_box [MouseDown 0 False (Some (0, Vector3 1 (1 / 2) 2))] chair_world"

definition red_chair :: world where
  "red_chair = applyColor (Hex 0xff0000) selected_chair"

text \<open>
  The snapshot taken of the chair before it was painted, and the seat and the nodes of
  the chair after painting (every mesh has its own clone).
\<close>

definition chair_snapshot :: "saved_color list" where
  "chair_snapshot = concat (map (snapshot_node (store selected_chair)) chair_nodes)"

definition red_seat :: node where
  "red_seat = (placed_at (Mesh ''u1'' (BoxGeometry 0.5 0.05 0.5) 2) (Vector3 0 0.45 0))"

definition red_chair_nodes :: "node list" where
  "red_chair_nodes =
     [(Group ''u0'')\<lparr>name := ''Furniture_Chair_1'', position := Vector3 1 0 2\<rparr>,
      red_seat,
      placed_at (Mesh ''u2'' (BoxGeometry 0.5 0.5 0.05) 3) (Vector3 0 0.7 (- 0.22)),
      placed_at (Mesh ''u3'' (CylinderGeometry 0.02 0.02 0.45) 4) (Vector3 (- 0.2) 0.225 (- 0.2)),
      placed_at (Mesh ''u4'' (CylinderGeometry 0.02 0.02 0.45) 5) (Vector3 0.2 0.225 (- 0.2)),
      placed_at (Mesh ''u5'' (CylinderGeometry 0.02 0.02 0.45) 6) (Vector3 (- 0.2) 0.225 0.2),
      placed_at (Mesh ''u6'' (CylinderGeometry 0.02 0.02 0.45) 7) (Vector3 0.2 0.225 0.2)]"






definition no_assets :: "string \<Rightarrow> object3d option" where
  "no_assets p = None"

text \<open>The saved record of a chair placed from the catalog.\<close>

definition chair_record :: object_data where
  "chair_record =
     \<lparr>od_name = ''Furniture_Chair_1'', furnitureType = Some ''Chair'',
      furniturePath = Some ''chair01'', furnitureId = Some 12,
      furnitureData = Some (as_furniture_data chair_entry),
      od_position = Vector3 1 0 2, od_rotation = Vector3 0 0 0, od_scale = Vector3 1 1 1,
      materialMods = None\<rparr>"



text \<open>The catalog entry of a cupboard and the saved record of a cupboard placed from it.\<close>

definition cupboard_entry :: catalog_entry where
  "cupboard_entry = \<lparr>ce_name = ''Cupboard'', ce_path = ''kitchen_cupboard01'', ce_id = 21\<rparr>"

definition cupboard_record :: object_data where
  "cupboard_record =
     \<lparr>od_name = ''Furniture_Cupboard_3'', furnitureType = Some ''Cupboard'',
      furniturePath = Some ''kitchen_cupboard01'', furnitureId = Some 21,
      furnitureData = Some (as_furniture_data cupboard_entry),
      od_position = Vector3 3 0 (- 4), od_rotation = Vector3 0 0 0, od_scale = Vector3 1 1 1,
      materialMods = None\<rparr>"


section \<open>Saving an empty room\<close>

text \<open>
  C10. Saving when the list of placed items is empty returns false and leaves the
  persistent store as it was, so a document saved earlier is still there.
\<close>

theorem saveLayout_empty_no_write:
  "saveLayout h now [] st = (False, st)"
  by (simp add: saveLayout_def)

section \<open>Restoring an item from the document\<close>












section \<open>Placement and the floor\<close>

lemmas eval_defs =
  fallback_type_def toLowerCase_def lower_char_def min_world_y_def place_model_def
  createPrimitiveFallback_def createPrimitiveByType_def sofa_entry_def chair_entry_def alloc_def
  applyScale_def normalize_scale_def setFromObject_def at_origin_def primitive_box_def
  traverse_def expand_by_node_def Group_def Mesh_def placed_at_def union3_def scaled_box_def
  scaled_interval_def geometry_box_def Vector3_def zero3_def one3_def translate_def add3_def
  getSize_def targetHeight_def set_position_y_def setScalar_def heap0_def Let_def
  geometry_of_def geometric_def uuids_def js_rem_def empty_user_data_def as_furniture_data_def

lemma geometry_of_position [simp]:
  "geometry_of (obj\<lparr>root := (root obj)\<lparr>position := p\<rparr>\<rparr>) = geometry_of obj"
  by (simp add: geometry_of_def at_origin_def traverse_def)

lemma geometry_of_set_position_y [simp]:
  "geometry_of (set_position_y y obj) = geometry_of obj"
  by (simp add: geometry_of_def at_origin_def traverse_def set_position_y_def)

lemma geometry_of_meta [simp]:
  "geometry_of (obj\<lparr>userData := ud, root := (root obj)\<lparr>name := nm\<rparr>\<rparr>) = geometry_of obj"
  by (simp add: geometry_of_def at_origin_def traverse_def geometric_def)

lemma position_normalize_scale [simp]:
  "position (root (normalize_scale lb m e)) = position (root m)"
  by (simp add: normalize_scale_def setScalar_def Let_def)




section \<open>The placeholder of the layout serializer\<close>

lemma first_copy_fallback_is_one_grey_box:
  assumes "load_model loader (modelPath d) = None"
  shows "map geometry (traverse (fst (load_or_fallback Rev1 loader us d h))) = [Some (BoxGeometry 1 (1 / 2) 1)]"
    and "map (map_option (color \<circ> mats (snd (load_or_fallback Rev1 loader us d h))) \<circ> material)
             (traverse (fst (load_or_fallback Rev1 loader us d h))) = [Some (Some (Hex 0x888888))]"
  using assms
  by (simp_all add: load_or_fallback_def createFallbackPrimitive_def createFallbackPrimitive1_def alloc_def
      traverse_def Mesh_def MeshStandardMaterial_def split: prod.splits)

lemma cupboard_not_loaded:
  "load_or_fallback v (Some no_assets) us cupboard_record h =
     createFallbackPrimitive v (Some ''Cupboard'') (Some (as_furniture_data cupboard_entry)) us h"
  by (simp add: load_or_fallback_def load_model_def no_assets_def cupboard_record_def
        split: option.splits)

lemma cupboard_types:
  "fallback_type (ce_name cupboard_entry) = ''cabinet''"
  "fallbackType (Some ''Cupboard'') (Some (as_furniture_data cupboard_entry)) = ''Cupboard''"
  by (simp_all add: fallback_type_def fallbackType_def toLowerCase_def lower_char_def cupboard_entry_def
        as_furniture_data_def or_js_def truthy_def)

text \<open>
  C6 fails on the code, in both copies of the layout serializer. A cupboard is placed
  and saved; its asset does not load. The placement engine classifies the name
  \<open>Cupboard\<close> as a cabinet and builds a body with two doors. The first copy of the layout
  serializer is passed the saved type and does not read it: it builds one box of
  1 x 0.5 x 1. The second copy classifies the saved name with the placement engine's
  list of words, except that it has \<open>wardrobe\<close> where the placement engine has
  \<open>cupboard\<close>: the type stays \<open>Cupboard\<close> and it builds one box of 0.8 x 0.5 x 0.8.
\<close>

theorem serializer_fallback_differs_from_placement:
  "fallback_type (ce_name cupboard_entry) = ''cabinet''
   \<and> map geometry (traverse (fst (createPrimitiveFallback cupboard_entry uuids heap0)))
       = [None, Some (BoxGeometry (4 / 5) (6 / 5) (1 / 2)), Some (BoxGeometry (7 / 20) (11 / 10) (1 / 50)),
          Some (BoxGeometry (7 / 20) (11 / 10) (1 / 50))]
   \<and> map geometry (traverse (fst (load_or_fallback Rev1 (Some no_assets) uuids cupboard_record heap0)))
       = [Some (BoxGeometry 1 (1 / 2) 1)]
   \<and> fallbackType (furnitureType cupboard_record) (furnitureData cupboard_record) = ''Cupboard''
   \<and> map geometry (traverse (fst (load_or_fallback Rev2 (Some no_assets) uuids cupboard_record heap0)))
       = [None, Some (BoxGeometry (4 / 5) (1 / 2) (4 / 5))]"
proof -
  have 1: "map geometry (traverse (fst (createPrimitiveFallback cupboard_entry uuids heap0)))
       = [None, Some (BoxGeometry (4 / 5) (6 / 5) (1 / 2)), Some (BoxGeometry (7 / 20) (11 / 10) (1 / 50)),
          Some (BoxGeometry (7 / 20) (11 / 10) (1 / 50))]"
    by (simp add: createPrimitiveFallback_def cupboard_types createPrimitiveByType_def alloc_def traverse_def
          Mesh_def Group_def placed_at_def Let_def split: prod.splits)
  have 2: "map geometry (traverse (fst (load_or_fallback Rev1 (Some no_assets) uuids cupboard_record heap0)))
       = [Some (BoxGeometry 1 (1 / 2) 1)]"
    by (simp add: cupboard_not_loaded createFallbackPrimitive_def createFallbackPrimitive1_def alloc_def
          traverse_def Mesh_def split: prod.splits)
  have 3: "fallbackType (furnitureType cupboard_record) (furnitureData cupboard_record) = ''Cupboard''"
    using cupboard_types(2) by (simp add: cupboard_record_def)
  have 4: "map geometry (traverse (fst (load_or_fallback Rev2 (Some no_assets) uuids cupboard_record heap0)))
       = [None, Some (BoxGeometry (4 / 5) (1 / 2) (4 / 5))]"
    by (simp add: cupboard_not_loaded createFallbackPrimitive_def createFallbackPrimitive2_def cupboard_types
          alloc_def traverse_def Mesh_def Group_def placed_at_def Let_def split: prod.splits)
  from 1 2 3 4 cupboard_types(1) show ?thesis by simp
qed

section \<open>Selection\<close>

lemma set_isSelected_fields [simp]:
  "store (set_isSelected obj b w) = store w"
  "originalMaterials (set_isSelected obj b w) = originalMaterials w"
  "selectedObject (set_isSelected obj b w) = selectedObject w"
  "isDragging (set_isSelected obj b w) = isDragging w"
  "controls_enabled (set_isSelected obj b w) = controls_enabled w"
  "highlightHelper (set_isSelected obj b w) = highlightHelper w"
  "traverse (items (set_isSelected obj b w) k) = traverse (items w k)"
  "isSelected (userData (items (set_isSelected obj b w) k)) =
     (if k = obj then b else isSelected (userData (items w k)))"
  by (simp_all add: set_isSelected_def traverse_def)

lemma removeHighlight_fields [simp]:
  "store (removeHighlight w) = store w"
  "originalMaterials (removeHighlight w) = originalMaterials w"
  "selectedObject (removeHighlight w) = selectedObject w"
  "isDragging (removeHighlight w) = isDragging w"
  "controls_enabled (removeHighlight w) = controls_enabled w"
  "highlightHelper (removeHighlight w) = None"
  "items (removeHighlight w) = items w"
  by (simp_all add: removeHighlight_def)

lemma createHighlight_fields [simp]:
  "store (createHighlight obj w) = store w"
  "originalMaterials (createHighlight obj w) = originalMaterials w"
  "selectedObject (createHighlight obj w) = selectedObject w"
  "isDragging (createHighlight obj w) = isDragging w"
  "controls_enabled (createHighlight obj w) = controls_enabled w"
  "highlightHelper (createHighlight obj w) = Some obj"
  "items (createHighlight obj w) = items w"
  by (simp_all add: createHighlight_def)

lemma applyHighlightMaterial_fields [simp]:
  "store (applyHighlightMaterial obj w) =
     snd (fold highlight_node (traverse (items w obj)) (originalMaterials w, store w))"
  "originalMaterials (applyHighlightMaterial obj w) =
     fst (fold highlight_node (traverse (items w obj)) (originalMaterials w, store w))"
  "selectedObject (applyHighlightMaterial obj w) = selectedObject w"
  "isDragging (applyHighlightMaterial obj w) = isDragging w"
  "controls_enabled (applyHighlightMaterial obj w) = controls_enabled w"
  "highlightHelper (applyHighlightMaterial obj w) = highlightHelper w"
  "items (applyHighlightMaterial obj w) = items w"
  by (simp_all add: applyHighlightMaterial_def Let_def)

lemma restoreOriginalMaterials_fields [simp]:
  "store (restoreOriginalMaterials obj w) =
     fold (restore_node (originalMaterials w)) (traverse (items w obj)) (store w)"
  "originalMaterials (restoreOriginalMaterials obj w) = Map.empty"
  "selectedObject (restoreOriginalMaterials obj w) = selectedObject w"
  "isDragging (restoreOriginalMaterials obj w) = isDragging w"
  "controls_enabled (restoreOriginalMaterials obj w) = controls_enabled w"
  "highlightHelper (restoreOriginalMaterials obj w) = highlightHelper w"
  "items (restoreOriginalMaterials obj w) = items w"
  by (simp_all add: restoreOriginalMaterials_def)

lemma unhighlight_fields [simp]:
  "store (unhighlight old w) =
     fold (restore_node (originalMaterials w)) (traverse (items w old)) (store w)"
  "originalMaterials (unhighlight old w) = Map.empty"
  "selectedObject (unhighlight old w) = selectedObject w"
  "isDragging (unhighlight old w) = isDragging w"
  "controls_enabled (unhighlight old w) = controls_enabled w"
  "highlightHelper (unhighlight old w) = None"
  "traverse (items (unhighlight old w) k) = traverse (items w k)"
  "isSelected (userData (items (unhighlight old w) k)) =
     (if k = old then False else isSelected (userData (items w k)))"
  by (simp_all add: unhighlight_def)

lemma updateSelection_same: "v = selectedObject w \<Longrightarrow> updateSelection v w = w"
  by (simp add: updateSelection_def)

lemma deselect_None: "selectedObject w = None \<Longrightarrow> deselect w = w"
  by (simp add: deselect_def)

lemma deselect_Some:
  "selectedObject w = Some old \<Longrightarrow>
   deselect w = (unhighlight old w)\<lparr>selectedObject := None, state_selectedObject := None, panel_selectedObject := None\<rparr>"
  by (simp add: deselect_def set_state_selectedObject_def updateSelection_same)

lemma deselect_fields [simp]:
  "selectedObject (deselect w) = None"
  "isDragging (deselect w) = isDragging w"
  "controls_enabled (deselect w) = controls_enabled w"
  "traverse (items (deselect w) k) = traverse (items w k)"
  by (cases "selectedObject w"; simp add: deselect_None deselect_Some)+

lemma select_eq:
  "select obj w =
     (applyHighlightMaterial obj (createHighlight obj (set_isSelected obj True
        ((if selectedObject w \<noteq> None \<and> selectedObject w \<noteq> Some obj then deselect w else w)
           \<lparr>selectedObject := Some obj\<rparr>))))
     \<lparr>state_selectedObject := Some obj, panel_selectedObject := Some obj\<rparr>"
  by (simp add: select_def Let_def set_state_selectedObject_def updateSelection_same)

lemma select_fields [simp]:
  "selectedObject (select obj w) = Some obj"
  "isDragging (select obj w) = isDragging w"
  "controls_enabled (select obj w) = controls_enabled w"
  "traverse (items (select obj w) k) = traverse (items w k)"
  by (simp_all add: select_eq)

lemma select_unselected:
  assumes "selectedObject w = None"
  shows "store (select obj w) = snd (fold highlight_node (traverse (items w obj)) (originalMaterials w, store w))"
    and "originalMaterials (select obj w) = fst (fold highlight_node (traverse (items w obj)) (originalMaterials w, store w))"
  using assms by (simp_all add: select_eq)

lemma select_other:
  assumes "selectedObject w = Some a" "a \<noteq> b"
  shows "store (select b w) = snd (fold highlight_node (traverse (items w b))
            (Map.empty, fold (restore_node (originalMaterials w)) (traverse (items w a)) (store w)))"
    and "isSelected (userData (items (select b w) a)) = False"
  using assms by (simp_all add: select_eq deselect_Some)


lemma chair_type: "fallback_type (ce_name chair_entry) = ''chair''"
  by (simp add: fallback_type_def toLowerCase_def lower_char_def chair_entry_def)

lemma sofa_type: "fallback_type (ce_name sofa_entry) = ''couch''"
  by (simp add: fallback_type_def toLowerCase_def lower_char_def sofa_entry_def)

lemma traverse_place_model:
  "map (\<lambda>n. (uuid n, isMesh n, material n)) (traverse (fst (place_model lb None entry pos us i nm h)))
   = map (\<lambda>n. (uuid n, isMesh n, material n)) (traverse (fst (createPrimitiveFallback entry us h)))"
  by (simp add: place_model_def applyScale_def normalize_scale_def setScalar_def set_position_y_def
        traverse_def Let_def split: prod.splits option.splits)

lemma placeFurniture_fields [simp]:
  "selectedObject (placeFurniture lb loaded entry pos us i nm w) = selectedObject w"
  "originalMaterials (placeFurniture lb loaded entry pos us i nm w) = originalMaterials w"
  "isDragging (placeFurniture lb loaded entry pos us i nm w) = isDragging w"
  "controls_enabled (placeFurniture lb loaded entry pos us i nm w) = controls_enabled w"
  "next_obj (placeFurniture lb loaded entry pos us i nm w) = Suc (next_obj w)"
  "store (placeFurniture lb loaded entry pos us i nm w) = snd (place_model lb loaded entry pos us i nm (store w))"
  "items (placeFurniture lb loaded entry pos us i nm w) =
     (items w)(next_obj w := fst (place_model lb loaded entry pos us i nm (store w)))"
  by (simp_all add: placeFurniture_def Let_def split: prod.splits)

lemma snd_place_model:
  "snd (place_model lb None entry pos us i nm h) = snd (createPrimitiveFallback entry us h)"
  by (simp add: place_model_def Let_def split: prod.splits)

lemma chair_store:
  "store chair_world = snd (createPrimitiveFallback chair_entry uuids (store initial_world))"
  by (simp add: chair_world_def snd_place_model)


lemma next_ref_initial: "next_ref (store initial_world) = 0" "next_obj initial_world = 0"
  by (simp_all add: initial_world_def)

lemma chair_item: "traverse (fst (place_model primitive_box None chair_entry (Vector3 1 0 2) uuids 1 ''Furniture_Chair_1'' (store initial_world))) = chair_nodes"
  by (simp add: chair_nodes_def eval_defs uuids'_def chair_type next_ref_initial split: prod.splits)


lemma sofa_item: "traverse (fst (place_model primitive_box None sofa_entry (Vector3 (- 2) 0 (- 1)) uuids' 2 ''Furniture_Sofa_2'' (store chair_world))) = sofa_nodes"
  by (simp add: sofa_nodes_def eval_defs uuids'_def sofa_type chair_type chair_store next_ref_initial split: prod.splits)


lemma chair_world_items: "items chair_world = (items initial_world)(0 := fst (place_model primitive_box None chair_entry (Vector3 1 0 2) uuids 1 ''Furniture_Chair_1'' (store initial_world)))"
  by (simp add: chair_world_def next_ref_initial)

lemma chair_world_next: "next_obj chair_world = 1"
  by (simp add: chair_world_def next_ref_initial)

lemma tw_items:
  "traverse (items two_items_world 0) = chair_nodes"
  "traverse (items two_items_world 1) = sofa_nodes"
  "traverse (items two_items_world (Suc 0)) = sofa_nodes"
  by (simp_all add: two_items_world_def chair_world_next chair_world_items chair_item sofa_item)

lemma tw_fields:
  "selectedObject two_items_world = None"
  "originalMaterials two_items_world = Map.empty"
  "controls_enabled two_items_world"
  "\<not> isDragging two_items_world"
  by (simp_all add: two_items_world_def chair_world_def) (simp_all add: initial_world_def)


lemma chair_alloc:
  "mats (snd (createPrimitiveFallback chair_entry uuids h)) =
     (mats h)(next_ref h := MeshStandardMaterial (HSL (real_of_int (js_rem (ce_id chair_entry * 37) 360) / 360) 0.6 0.5) 0.7 0.1,
              Suc (next_ref h) := MeshStandardMaterial (Hex 0x4a4a4a) 1 0)"
  "next_ref (snd (createPrimitiveFallback chair_entry uuids h)) = Suc (Suc (next_ref h))"
  by (simp_all add: createPrimitiveFallback_def chair_type createPrimitiveByType_def alloc_def Let_def)

lemma sofa_alloc:
  "mats (snd (createPrimitiveFallback sofa_entry us h)) =
     (mats h)(next_ref h := MeshStandardMaterial (HSL (real_of_int (js_rem (ce_id sofa_entry * 37) 360) / 360) 0.6 0.5) 0.7 0.1)"
  by (simp_all add: createPrimitiveFallback_def sofa_type createPrimitiveByType_def alloc_def Let_def)

lemma tw_store:
  "emissive (mats (store two_items_world) 0) = Some (Hex 0)"
  "emissiveIntensity (mats (store two_items_world) 0) = Some 1"
  "emissive (mats (store two_items_world) 1) = Some (Hex 0)"
  "emissive (mats (store two_items_world) 2) = Some (Hex 0)"
  by (simp_all add: two_items_world_def snd_place_model chair_store chair_alloc sofa_alloc
        next_ref_initial MeshStandardMaterial_def)

lemma mats_modify [simp]: "mats (modify r f h) = (mats h)(r := f (mats h r))"
  by (simp add: modify_def)

lemma chair_view:
  "map (\<lambda>n. (uuid n, isMesh n, material n)) chair_nodes =
     [(''u0'', False, None), (''u1'', True, Some 0), (''u2'', True, Some 0), (''u3'', True, Some 1),
      (''u4'', True, Some 1), (''u5'', True, Some 1), (''u6'', True, Some 1)]"
  by (simp add: chair_nodes_def Mesh_def Group_def placed_at_def)

lemma highlight_chair:
  assumes "emissive (mats h 0) = Some c0" "emissive (mats h 1) = Some c1"
  shows "fst (fold highlight_node chair_nodes (Map.empty, h)) ''u2'' =
           Some \<lparr>se_emissive = Some (Hex selectedEmissive), se_emissiveIntensity = Some (1 / 2)\<rparr>"
  using assms
  by (simp add: chair_nodes_def highlight_node_def Mesh_def Group_def placed_at_def Let_def)

lemma highlight_then_restore_chair:
  assumes "emissive (mats h 0) = Some c0" "emissive (mats h 1) = Some c1"
  shows "emissive (mats (fold (restore_node (fst (fold highlight_node chair_nodes (Map.empty, h)))) chair_nodes
            (snd (fold highlight_node chair_nodes (Map.empty, h)))) 0) = Some (Hex selectedEmissive)"
    and "emissiveIntensity (mats (fold (restore_node (fst (fold highlight_node chair_nodes (Map.empty, h)))) chair_nodes
            (snd (fold highlight_node chair_nodes (Map.empty, h)))) 0) = Some (1 / 2)"
  using assms
  by (simp_all add: chair_nodes_def highlight_node_def restore_node_def Mesh_def Group_def
        placed_at_def Let_def)

lemma highlight_sofa_keeps_0:
  "mats (snd (fold highlight_node sofa_nodes (om, h))) 0 = mats h 0"
  by (simp add: sofa_nodes_def highlight_node_def Mesh_def Group_def placed_at_def Let_def)

lemma after_switch_eq: "after_switch = select 1 (select 0 two_items_world)"
  by (simp add: after_switch_def run_def onMouseDown_def tw_fields)

text \<open>
  C3 at a failing input. The placeholder of a chair uses one material for its seat and
  its back. Selecting the chair and then the sofa clears the chair's selection flag, but
  the material of the chair's seat, which had a black emissive colour of intensity 1
  before, keeps the highlight colour at intensity 0.5: the snapshot taken for the back
  was taken after the seat had tinted the shared material.
\<close>

theorem switch_leaves_highlight_on_shared_material:
  "emissive (mats (store two_items_world) 0) = Some (Hex 0)
   \<and> emissiveIntensity (mats (store two_items_world) 0) = Some 1
   \<and> selectedObject after_switch = Some 1
   \<and> isSelected (userData (items after_switch 0)) = False
   \<and> emissive (mats (store after_switch) 0) = Some (Hex selectedEmissive)
   \<and> emissiveIntensity (mats (store after_switch) 0) = Some (1 / 2)"
proof -
  let ?w1 = "select 0 two_items_world"
  have s1: "store ?w1 = snd (fold highlight_node chair_nodes (Map.empty, store two_items_world))"
    and o1: "originalMaterials ?w1 = fst (fold highlight_node chair_nodes (Map.empty, store two_items_world))"
    using select_unselected [OF tw_fields(1), of 0] by (simp_all add: tw_items tw_fields)
  have sel1: "selectedObject ?w1 = Some 0" by simp
  have s2: "store (select 1 ?w1) = snd (fold highlight_node sofa_nodes
            (Map.empty, fold (restore_node (originalMaterials ?w1)) chair_nodes (store ?w1)))"
    using select_other(1) [OF sel1, of 1] by (simp add: tw_items)
  have f2: "isSelected (userData (items (select 1 ?w1) 0)) = False"
    using select_other(2) [OF sel1, of 1] by simp
  show ?thesis
    unfolding after_switch_eq s2 highlight_sofa_keeps_0 o1 s1
    using highlight_then_restore_chair [OF tw_store(1) tw_store(3)] f2
    by (simp add: tw_store)
qed

section \<open>Dragging\<close>

lemma startDrag_fields [simp]:
  "selectedObject (startDrag p w) = selectedObject w"
  "controls_enabled (startDrag p w) = controls_enabled w"
  "items (startDrag p w) = items w"
  "store (startDrag p w) = store w"
  "isDragging (startDrag p w) = (selectedObject w \<noteq> None \<or> isDragging w)"
  by (simp_all add: startDrag_def split: option.splits)

lemma endDrag_fields [simp]:
  "selectedObject (endDrag w) = selectedObject w"
  "controls_enabled (endDrag w) = controls_enabled w"
  "items (endDrag w) = items w"
  "isDragging (endDrag w) = False"
  by (simp_all add: endDrag_def)

lemma onMouseMove_fields [simp]:
  "selectedObject (onMouseMove lb hit w) = selectedObject w"
  "controls_enabled (onMouseMove lb hit w) = controls_enabled w"
  "isDragging (onMouseMove lb hit w) = isDragging w"
  by (simp_all add: onMouseMove_def Let_def split: option.splits)

lemma controls_enabled_handle [simp]: "controls_enabled (handle lb e w) = controls_enabled w"
  by (cases e) (simp_all add: onMouseDown_def onMouseUp_def split: option.splits prod.splits)

lemma controls_enabled_run [simp]: "controls_enabled (run lb es w) = controls_enabled w"
  unfolding run_def by (induction es arbitrary: w) simp_all

lemma cw_fields:
  "selectedObject chair_world = None"
  "controls_enabled chair_world"
  by (simp_all add: chair_world_def) (simp_all add: initial_world_def)

text \<open>
  C2 at a failing input. With a chair placed, a click on the chair selects it and a
  second pointer-down on it starts the drag: the drag flag is set and the orbit
  controls are still enabled. No pointer or selection event changes the controls' flag
  (\<open>controls_enabled_run\<close>).
\<close>

theorem drag_leaves_orbit_controls_enabled:
  "isDragging after_grab \<and> controls_enabled after_grab"
proof -
  have eq: "after_grab = startDrag (Vector3 1 (1 / 2) 2) (select 0 chair_world)"
    by (simp add: after_grab_def run_def onMouseDown_def cw_fields)
  show ?thesis unfolding eq by (simp add: cw_fields)
qed


lemma getSize_translate [simp]: "getSize (map_option (translate p) b) = getSize b"
  by (cases b) (simp_all add: getSize_def translate_def add3_def Vector3_def)

lemma getSize_setFromObject_position [simp]:
  "getSize (setFromObject lb (obj\<lparr>root := (root obj)\<lparr>position := p\<rparr>\<rparr>)) = getSize (setFromObject lb obj)"
  by (simp add: setFromObject_def)

lemma clamp_abs:
  fixes b x :: real
  assumes "0 \<le> b"
  shows "\<bar>max (- b) (min b x)\<bar> \<le> b"
  using assms by (simp add: abs_le_iff max_def min_def)

text \<open>
  C4, as the code has it. For every drag update of an item whose footprint fits the
  room (half its bounding-box width and depth at most the half-width and half-depth of
  the room less the margin 0.3), the written position satisfies
  \<open>|x| \<le> halfWidth - margin - objHalfWidth\<close> and \<open>|z| \<le> halfDepth - margin - objHalfDepth\<close>
  with the extents of the item's current bounding box; x and z are the candidate
  position clamped to these bounds, and y is left unchanged.
\<close>

theorem drag_update_within_bounds:
  assumes "isDragging w" and "selectedObject w = Some ob"
    and "vx (getSize (setFromObject lb (items w ob))) / 2 \<le> ROOM_CONFIG_width / 2 - 0.3"
    and "vz (getSize (setFromObject lb (items w ob))) / 2 \<le> ROOM_CONFIG_depth / 2 - 0.3"
  shows "let w' = onMouseMove lb (Some p) w;
             pos' = position (root (items w' ob));
             size' = getSize (setFromObject lb (items w' ob));
             bx = ROOM_CONFIG_width / 2 - 0.3 - vx size' / 2;
             bz = ROOM_CONFIG_depth / 2 - 0.3 - vz size' / 2
         in \<bar>vx pos'\<bar> \<le> bx \<and> \<bar>vz pos'\<bar> \<le> bz
            \<and> vx pos' = max (- bx) (min bx (vx p - vx (dragOffset w)))
            \<and> vz pos' = max (- bz) (min bz (vz p - vz (dragOffset w)))
            \<and> vy pos' = vy (position (root (items w ob)))"
proof -
  define sz where "sz = getSize (setFromObject lb (items w ob))"
  define bx where "bx = ROOM_CONFIG_width / 2 - 0.3 - vx sz / 2"
  define bz where "bz = ROOM_CONFIG_depth / 2 - 0.3 - vz sz / 2"
  have b: "0 \<le> bx" "0 \<le> bz" using assms(3,4) by (simp_all add: bx_def bz_def sz_def)
  have c: "constrainToRoom lb (sub3 p (dragOffset w)) w =
           Vector3 (max (- bx) (min bx (vx p - vx (dragOffset w)))) (vy p - vy (dragOffset w))
                   (max (- bz) (min bz (vz p - vz (dragOffset w))))"
    using assms(2) by (simp add: constrainToRoom_def Let_def bx_def bz_def sz_def sub3_def Vector3_def)
  have m: "items (onMouseMove lb (Some p) w) ob =
          (items w ob)\<lparr>root := (root (items w ob))\<lparr>position := (position (root (items w ob)))
              \<lparr>vx := max (- bx) (min bx (vx p - vx (dragOffset w))),
               vz := max (- bz) (min bz (vz p - vz (dragOffset w)))\<rparr>\<rparr>\<rparr>"
    using assms(1,2) by (simp add: onMouseMove_def Let_def c Vector3_def)
  show ?thesis
    unfolding Let_def m using clamp_abs [OF b(1)] clamp_abs [OF b(2)]
    by (simp add: bx_def bz_def sz_def)
qed

text \<open>
  C9, as the code has it. When half the selected item's bounding-box width exceeds the
  room's usable half-width, the clamp returns for x the excess
  \<open>objHalfWidth - (width / 2 - margin)\<close>, whatever the candidate; the same holds for z
  with the depth. The value is finite and positive, not the room's centre.
\<close>

theorem degenerate_clamp:
  assumes "selectedObject w = Some ob"
  shows "(vx (getSize (setFromObject lb (items w ob))) / 2 > ROOM_CONFIG_width / 2 - 0.3 \<longrightarrow>
           vx (constrainToRoom lb p w) =
             vx (getSize (setFromObject lb (items w ob))) / 2 - (ROOM_CONFIG_width / 2 - 0.3))
       \<and> (vz (getSize (setFromObject lb (items w ob))) / 2 > ROOM_CONFIG_depth / 2 - 0.3 \<longrightarrow>
           vz (constrainToRoom lb p w) =
             vz (getSize (setFromObject lb (items w ob))) / 2 - (ROOM_CONFIG_depth / 2 - 0.3))"
  using assms by (simp add: constrainToRoom_def Let_def Vector3_def)


lemma setFromObject_traverse:
  "traverse a = traverse b \<Longrightarrow> setFromObject lb a = setFromObject lb b"
  by (simp add: setFromObject_def geometry_of_def at_origin_def traverse_def)

lemma position_traverse:
  "traverse a = traverse b \<Longrightarrow> position (root a) = position (root b)"
  by (simp add: traverse_def)

lemma chair_size:
  "getSize (setFromObject primitive_box (items chair_world 0)) = Vector3 (1 / 2) (19 / 20) (1 / 2)"
proof -
  have "getSize (setFromObject primitive_box (fst (place_model primitive_box None chair_entry (Vector3 1 0 2) uuids 1 ''Furniture_Chair_1'' (store initial_world))))
          = Vector3 (1 / 2) (19 / 20) (1 / 2)"
    by (simp add: eval_defs chair_type next_ref_initial split: prod.splits)
  then show ?thesis by (simp add: chair_world_items)
qed

lemma after_grab_eq: "after_grab = startDrag (Vector3 1 (1 / 2) 2) (select 0 chair_world)"
  by (simp add: after_grab_def run_def onMouseDown_def cw_fields)

lemma after_grab_size:
  "getSize (setFromObject primitive_box (items after_grab 0)) = Vector3 (1 / 2) (19 / 20) (1 / 2)"
  using setFromObject_traverse [of "items (select 0 chair_world) 0" "items chair_world 0" primitive_box]
  by (simp add: after_grab_eq chair_size)

theorem drag_update_within_bounds_witness:
  "isDragging after_grab \<and> selectedObject after_grab = Some 0
   \<and> vx (getSize (setFromObject primitive_box (items after_grab 0))) / 2 \<le> ROOM_CONFIG_width / 2 - 0.3
   \<and> vz (getSize (setFromObject primitive_box (items after_grab 0))) / 2 \<le> ROOM_CONFIG_depth / 2 - 0.3
   \<and> (let w' = onMouseMove primitive_box (Some (Vector3 100 0 100)) after_grab;
             pos' = position (root (items w' 0));
             size' = getSize (setFromObject primitive_box (items w' 0));
             bx = ROOM_CONFIG_width / 2 - 0.3 - vx size' / 2;
             bz = ROOM_CONFIG_depth / 2 - 0.3 - vz size' / 2
         in \<bar>vx pos'\<bar> \<le> bx \<and> \<bar>vz pos'\<bar> \<le> bz
            \<and> vx pos' = max (- bx) (min bx (vx (Vector3 100 0 100) - vx (dragOffset after_grab)))
            \<and> vz pos' = max (- bz) (min bz (vz (Vector3 100 0 100) - vz (dragOffset after_grab)))
            \<and> vy pos' = vy (position (root (items after_grab 0))))"
proof -
  have h1: "isDragging after_grab" and h2: "selectedObject after_grab = Some 0"
    by (simp_all add: after_grab_eq)
  have h3: "vx (getSize (setFromObject primitive_box (items after_grab 0))) / 2 \<le> ROOM_CONFIG_width / 2 - 0.3"
    and h4: "vz (getSize (setFromObject primitive_box (items after_grab 0))) / 2 \<le> ROOM_CONFIG_depth / 2 - 0.3"
    by (simp_all add: after_grab_size Vector3_def ROOM_CONFIG_width_def ROOM_CONFIG_depth_def)
  from h1 h2 h3 h4 drag_update_within_bounds [OF h1 h2 h3 h4, of "Vector3 100 0 100"]
  show ?thesis by blast
qed


lemma carpet_fields:
  "selectedObject carpet_world = None"
  "items carpet_world 0 = fst (place_model primitive_box (Some carpet_asset) carpet_entry (Vector3 0 0 0) uuids 1
       ''Furniture_Carpet_1'' (store initial_world))"
  by (simp_all add: carpet_world_def next_ref_initial) (simp add: initial_world_def)

lemma carpet_height: "targetHeight (ce_name carpet_entry) = 1"
  by (simp add: targetHeight_def toLowerCase_def lower_char_def carpet_entry_def)

lemma carpet_size:
  "getSize (setFromObject primitive_box (items carpet_world 0)) = Vector3 12 (3 / 50) 12"
  unfolding carpet_fields
  by (simp add: place_model_def applyScale_def normalize_scale_def carpet_height setFromObject_def
        at_origin_def primitive_box_def traverse_def expand_by_node_def Group_def Mesh_def union3_def
        scaled_box_def scaled_interval_def geometry_box_def Vector3_def zero3_def one3_def translate_def
        add3_def getSize_def set_position_y_def setScalar_def Let_def geometry_of_def geometric_def
        carpet_asset_def)

lemma carpet_position:
  "position (root (items carpet_world 0)) = Vector3 0 0 0"
  unfolding carpet_fields
  by (simp add: place_model_def applyScale_def normalize_scale_def carpet_height setFromObject_def
        at_origin_def primitive_box_def traverse_def expand_by_node_def Group_def Mesh_def union3_def
        scaled_box_def scaled_interval_def geometry_box_def Vector3_def zero3_def one3_def translate_def
        add3_def getSize_def set_position_y_def setScalar_def Let_def geometry_of_def geometric_def
        carpet_asset_def)

lemma dragging_carpet_eq: "dragging_carpet = startDrag (Vector3 0 0 0) (select 0 carpet_world)"
  by (simp add: dragging_carpet_def run_def onMouseDown_def carpet_fields(1))

lemma dragging_carpet_facts:
  "isDragging dragging_carpet"
  "selectedObject dragging_carpet = Some 0"
  "getSize (setFromObject primitive_box (items dragging_carpet 0)) = Vector3 12 (3 / 50) 12"
  "dragOffset dragging_carpet = Vector3 0 0 0"
  using setFromObject_traverse [of "items (select 0 carpet_world) 0" "items carpet_world 0" primitive_box]
    position_traverse [of "items (select 0 carpet_world) 0" "items carpet_world 0"]
  by (simp_all add: dragging_carpet_eq carpet_size carpet_position startDrag_def sub3_def Vector3_def)

lemma carpet_clamp:
  "constrainToRoom primitive_box (Vector3 0 0 0) dragging_carpet = Vector3 (13 / 10) 0 (13 / 10)"
  by (simp add: constrainToRoom_def dragging_carpet_facts Let_def Vector3_def
        ROOM_CONFIG_width_def ROOM_CONFIG_depth_def)

theorem degenerate_clamp_witness:
  "selectedObject dragging_carpet = Some 0
   \<and> vx (getSize (setFromObject primitive_box (items dragging_carpet 0))) / 2 > ROOM_CONFIG_width / 2 - 0.3
   \<and> vz (getSize (setFromObject primitive_box (items dragging_carpet 0))) / 2 > ROOM_CONFIG_depth / 2 - 0.3
   \<and> vx (constrainToRoom primitive_box (Vector3 0 0 0) dragging_carpet) =
             vx (getSize (setFromObject primitive_box (items dragging_carpet 0))) / 2 - (ROOM_CONFIG_width / 2 - 0.3)
   \<and> vz (constrainToRoom primitive_box (Vector3 0 0 0) dragging_carpet) =
             vz (getSize (setFromObject primitive_box (items dragging_carpet 0))) / 2 - (ROOM_CONFIG_depth / 2 - 0.3)"
proof -
  have h: "selectedObject dragging_carpet = Some 0"
    by (rule dragging_carpet_facts)
  have x: "vx (getSize (setFromObject primitive_box (items dragging_carpet 0))) / 2 > ROOM_CONFIG_width / 2 - 0.3"
    and z: "vz (getSize (setFromObject primitive_box (items dragging_carpet 0))) / 2 > ROOM_CONFIG_depth / 2 - 0.3"
    by (simp_all add: dragging_carpet_facts Vector3_def ROOM_CONFIG_width_def ROOM_CONFIG_depth_def)
  from h x z degenerate_clamp [OF h, of primitive_box "Vector3 0 0 0"]
  show ?thesis by blast
qed

text \<open>
  C9 as stated fails: a carpet asset of 4 x 0.02 x 4, scaled by 3 at placement, is 12
  wide and deep; a candidate at the room's centre is clamped to (1.3, 1.3).
\<close>

theorem carpet_not_at_centre:
  "constrainToRoom primitive_box (Vector3 0 0 0) dragging_carpet = Vector3 (13 / 10) 0 (13 / 10)"
  by (rule carpet_clamp)

text \<open>
  C4 as stated fails: a drag update of that carpet writes x = 1.3, while
  \<open>halfWidth - margin - objHalfWidth\<close> is -1.3.
\<close>

theorem carpet_drag_exceeds_bound:
  "vx (position (root (items (onMouseMove primitive_box (Some (Vector3 0 0 0)) dragging_carpet) 0))) = 13 / 10
   \<and> ROOM_CONFIG_width / 2 - 0.3
       - vx (getSize (setFromObject primitive_box
               (items (onMouseMove primitive_box (Some (Vector3 0 0 0)) dragging_carpet) 0))) / 2 = - (13 / 10)"
proof -
  have m: "items (onMouseMove primitive_box (Some (Vector3 0 0 0)) dragging_carpet) 0 =
       (items dragging_carpet 0)\<lparr>root := (root (items dragging_carpet 0))
          \<lparr>position := (position (root (items dragging_carpet 0)))\<lparr>vx := 13 / 10, vz := 13 / 10\<rparr>\<rparr>\<rparr>"
    by (simp add: onMouseMove_def dragging_carpet_facts Let_def sub3_def)
       (simp add: carpet_clamp [unfolded Vector3_def] Vector3_def)
  show ?thesis
    unfolding m
    by (simp add: dragging_carpet_facts Vector3_def ROOM_CONFIG_width_def)
qed

section \<open>Reset to original\<close>

lemma next_ref_modify [simp]: "next_ref (modify r f h) = next_ref h"
  by (simp add: modify_def)

lemma more_modify [simp]: "heap.more (modify r f h) = heap.more h"
  by (simp add: modify_def)

lemma mats_reset_node:
  "mats (reset_node d n h) r = reset_step d r n (mats h r)"
  by (simp add: reset_node_def reset_step_def applied_def split: option.splits)

lemma next_ref_reset_node [simp]: "next_ref (reset_node d n h) = next_ref h"
  by (simp add: reset_node_def split: option.splits)

lemma mats_fold_reset:
  "mats (fold (reset_node d) ns h) r = fold (reset_step d r) ns (mats h r)"
  by (induction ns arbitrary: h) (simp_all add: mats_reset_node)

lemma next_ref_fold_reset [simp]: "next_ref (fold (reset_node d) ns h) = next_ref h"
  by (induction ns arbitrary: h) simp_all

text \<open>per field: the final value is either the start value or a constant\<close>

lemma restore_saved_fields:
  "color (restore_saved orig m) = (if sc_color orig \<noteq> None \<and> color m \<noteq> None then sc_color orig else color m)"
  "metalness (restore_saved orig m) = (if sc_metalness orig \<noteq> None then sc_metalness orig else metalness m)"
  "roughness (restore_saved orig m) = (if sc_roughness orig \<noteq> None then sc_roughness orig else roughness m)"
  "opacity (restore_saved orig m) = (if sc_opacity orig \<noteq> None then sc_opacity orig else opacity m)"
  "transparent (restore_saved orig m) = (case sc_opacity orig of None \<Rightarrow> transparent m | Some op \<Rightarrow> op < 1)"
  "emissive (restore_saved orig m) = emissive m"
  "emissiveIntensity (restore_saved orig m) = emissiveIntensity m"
  "isCloned (restore_saved orig m) = isCloned m"
  "needsUpdate (restore_saved orig m) = True"
  by (auto simp: restore_saved_def Let_def split: option.splits)

lemma fold_const_or_start:
  assumes "\<And>n m. \<exists>k. \<forall>m. p (st n m) = (case k of None \<Rightarrow> p m | Some v \<Rightarrow> v)"
  shows "\<exists>k. \<forall>m. p (fold st ns m) = (case k of None \<Rightarrow> p m | Some v \<Rightarrow> v)"
proof (induction ns rule: rev_induct)
  case Nil
  show ?case by (rule exI [of _ None]) simp
next
  case (snoc n ns)
  then obtain k where k: "\<forall>m. p (fold st ns m) = (case k of None \<Rightarrow> p m | Some v \<Rightarrow> v)" by blast
  from assms obtain j where j: "\<forall>m. p (st n m) = (case j of None \<Rightarrow> p m | Some v \<Rightarrow> v)" by blast
  show ?case
    by (rule exI [of _ "case j of None \<Rightarrow> k | Some v \<Rightarrow> Some v"]) (simp add: k j split: option.splits)
qed

lemma fold_field_idem:
  assumes "\<And>n m. \<exists>k. \<forall>m. p (st n m) = (case k of None \<Rightarrow> p m | Some v \<Rightarrow> v)"
  shows "p (fold st ns (fold st ns m)) = p (fold st ns m)"
proof -
  from fold_const_or_start [of p st ns, OF assms] obtain k
    where "\<forall>m. p (fold st ns m) = (case k of None \<Rightarrow> p m | Some v \<Rightarrow> v)" by blast
  then show ?thesis by (cases k) simp_all
qed


lemma reset_step_shape:
  "\<exists>k. \<forall>m. metalness (reset_step d r n m) = (case k of None \<Rightarrow> metalness m | Some v \<Rightarrow> v)"
  "\<exists>k. \<forall>m. roughness (reset_step d r n m) = (case k of None \<Rightarrow> roughness m | Some v \<Rightarrow> v)"
  "\<exists>k. \<forall>m. opacity (reset_step d r n m) = (case k of None \<Rightarrow> opacity m | Some v \<Rightarrow> v)"
  "\<exists>k. \<forall>m. transparent (reset_step d r n m) = (case k of None \<Rightarrow> transparent m | Some v \<Rightarrow> v)"
  "\<exists>k. \<forall>m. emissive (reset_step d r n m) = (case k of None \<Rightarrow> emissive m | Some v \<Rightarrow> v)"
  "\<exists>k. \<forall>m. emissiveIntensity (reset_step d r n m) = (case k of None \<Rightarrow> emissiveIntensity m | Some v \<Rightarrow> v)"
  "\<exists>k. \<forall>m. isCloned (reset_step d r n m) = (case k of None \<Rightarrow> isCloned m | Some v \<Rightarrow> v)"
  "\<exists>k. \<forall>m. needsUpdate (reset_step d r n m) = (case k of None \<Rightarrow> needsUpdate m | Some v \<Rightarrow> v)"
  "\<exists>k. \<forall>m. std_material.more (reset_step d r n m) = (case k of None \<Rightarrow> std_material.more m | Some v \<Rightarrow> v)"
proof -
  show "\<exists>k. \<forall>m. metalness (reset_step d r n m) = (case k of None \<Rightarrow> metalness m | Some v \<Rightarrow> v)"
    by (rule exI [of _ "case applied d r n of None \<Rightarrow> None
                        | Some orig \<Rightarrow> (if sc_metalness orig \<noteq> None then Some (sc_metalness orig) else None)"])
       (simp add: reset_step_def restore_saved_fields split: option.splits)
  show "\<exists>k. \<forall>m. roughness (reset_step d r n m) = (case k of None \<Rightarrow> roughness m | Some v \<Rightarrow> v)"
    by (rule exI [of _ "case applied d r n of None \<Rightarrow> None
                        | Some orig \<Rightarrow> (if sc_roughness orig \<noteq> None then Some (sc_roughness orig) else None)"])
       (simp add: reset_step_def restore_saved_fields split: option.splits)
  show "\<exists>k. \<forall>m. opacity (reset_step d r n m) = (case k of None \<Rightarrow> opacity m | Some v \<Rightarrow> v)"
    by (rule exI [of _ "case applied d r n of None \<Rightarrow> None
                        | Some orig \<Rightarrow> (if sc_opacity orig \<noteq> None then Some (sc_opacity orig) else None)"])
       (simp add: reset_step_def restore_saved_fields split: option.splits)
  show "\<exists>k. \<forall>m. transparent (reset_step d r n m) = (case k of None \<Rightarrow> transparent m | Some v \<Rightarrow> v)"
    by (rule exI [of _ "case applied d r n of None \<Rightarrow> None
                        | Some orig \<Rightarrow> (case sc_opacity orig of None \<Rightarrow> None | Some op \<Rightarrow> Some (op < 1))"])
       (simp add: reset_step_def restore_saved_fields split: option.splits)
  show "\<exists>k. \<forall>m. emissive (reset_step d r n m) = (case k of None \<Rightarrow> emissive m | Some v \<Rightarrow> v)"
    by (rule exI [of _ None]) (simp add: reset_step_def restore_saved_fields split: option.splits)
  show "\<exists>k. \<forall>m. emissiveIntensity (reset_step d r n m) = (case k of None \<Rightarrow> emissiveIntensity m | Some v \<Rightarrow> v)"
    by (rule exI [of _ None]) (simp add: reset_step_def restore_saved_fields split: option.splits)
  show "\<exists>k. \<forall>m. isCloned (reset_step d r n m) = (case k of None \<Rightarrow> isCloned m | Some v \<Rightarrow> v)"
    by (rule exI [of _ None]) (simp add: reset_step_def restore_saved_fields split: option.splits)
  show "\<exists>k. \<forall>m. needsUpdate (reset_step d r n m) = (case k of None \<Rightarrow> needsUpdate m | Some v \<Rightarrow> v)"
    by (rule exI [of _ "case applied d r n of None \<Rightarrow> None | Some orig \<Rightarrow> Some True"])
       (simp add: reset_step_def restore_saved_fields split: option.splits)
  show "\<exists>k. \<forall>m. std_material.more (reset_step d r n m) = (case k of None \<Rightarrow> std_material.more m | Some v \<Rightarrow> v)"
    by (rule exI [of _ None]) (simp add: reset_step_def restore_saved_def Let_def split: option.splits)
qed

text \<open>the colour channel: written only where the material has one\<close>

lemma color_reset_step:
  "color (reset_step d r n m) =
     (case applied d r n of
        None \<Rightarrow> color m
      | Some orig \<Rightarrow> (if sc_color orig \<noteq> None \<and> color m \<noteq> None then sc_color orig else color m))"
  by (simp add: reset_step_def restore_saved_fields split: option.splits)

lemma color_fold_reset_step:
  "\<exists>k. \<forall>m. color (fold (reset_step d r) ns m) =
      (if color m = None then None else case k of None \<Rightarrow> color m | Some v \<Rightarrow> Some v)"
proof (induction ns rule: rev_induct)
  case Nil
  show ?case by (rule exI [of _ None]) simp
next
  case (snoc n ns)
  then obtain k where k: "\<forall>m. color (fold (reset_step d r) ns m) =
      (if color m = None then None else case k of None \<Rightarrow> color m | Some v \<Rightarrow> Some v)" by blast
  show ?case
    by (rule exI [of _ "case applied d r n of None \<Rightarrow> k
                        | Some orig \<Rightarrow> (case sc_color orig of None \<Rightarrow> k | Some c \<Rightarrow> Some c)"])
       (auto simp: k color_reset_step split: option.splits)
qed

lemma color_fold_idem:
  "color (fold (reset_step d r) ns (fold (reset_step d r) ns m)) = color (fold (reset_step d r) ns m)"
proof -
  from color_fold_reset_step [of d r ns] obtain k where "\<forall>m. color (fold (reset_step d r) ns m) =
      (if color m = None then None else case k of None \<Rightarrow> color m | Some v \<Rightarrow> Some v)" by blast
  then show ?thesis by (cases k) simp_all
qed

lemma fold_reset_step_idem:
  "fold (reset_step d r) ns (fold (reset_step d r) ns m) = fold (reset_step d r) ns m"
  by (rule std_material.equality)
     (simp_all add: color_fold_idem fold_field_idem [OF reset_step_shape(1)]
        fold_field_idem [OF reset_step_shape(2)] fold_field_idem [OF reset_step_shape(3)]
        fold_field_idem [OF reset_step_shape(4)] fold_field_idem [OF reset_step_shape(5)]
        fold_field_idem [OF reset_step_shape(6)] fold_field_idem [OF reset_step_shape(7)]
        fold_field_idem [OF reset_step_shape(8)] fold_field_idem [OF reset_step_shape(9)])

lemma fold_reset_node_idem:
  "fold (reset_node d) ns (fold (reset_node d) ns h) = fold (reset_node d) ns h"
proof (rule heap.equality)
  show "mats (fold (reset_node d) ns (fold (reset_node d) ns h)) = mats (fold (reset_node d) ns h)"
    by (rule ext) (simp add: mats_fold_reset fold_reset_step_idem)
  show "next_ref (fold (reset_node d) ns (fold (reset_node d) ns h)) = next_ref (fold (reset_node d) ns h)"
    by simp
  show "heap.more (fold (reset_node d) ns (fold (reset_node d) ns h)) = heap.more (fold (reset_node d) ns h)"
    by simp
qed

lemma resetColor_idem: "resetColor (resetColor w) = resetColor w"
  by (simp add: resetColor_def fold_reset_node_idem split: option.splits)

lemma originalColors_resetColor: "originalColors (resetColor w) = originalColors w"
  by (simp add: resetColor_def split: option.splits)


lemma panel_fields [simp]:
  "panel_selectedObject (select obj w) = Some obj"
  by (simp add: select_eq)

lemma originalColors_fields [simp]:
  "originalColors (set_isSelected obj b w) = originalColors w"
  "originalColors (removeHighlight w) = originalColors w"
  "originalColors (createHighlight obj w) = originalColors w"
  "originalColors (applyHighlightMaterial obj w) = originalColors w"
  "originalColors (restoreOriginalMaterials obj w) = originalColors w"
  by (simp_all add: set_isSelected_def removeHighlight_def createHighlight_def
        applyHighlightMaterial_def restoreOriginalMaterials_def Let_def)

lemma originalColors_unhighlight [simp]: "originalColors (unhighlight old w) = originalColors w"
  by (simp add: unhighlight_def)

lemma originalColors_deselect [simp]: "originalColors (deselect w) = originalColors w"
  by (cases "selectedObject w") (simp_all add: deselect_None deselect_Some)

lemma originalColors_select [simp]: "originalColors (select obj w) = originalColors w"
  by (simp add: select_eq)

lemma selected_chair_eq: "selected_chair = select 0 chair_world"
  by (simp add: selected_chair_def run_def onMouseDown_def cw_fields)

lemma chair_world_traverse: "traverse (items chair_world 0) = chair_nodes"
  by (simp add: chair_world_items chair_item)

lemma selected_chair_facts:
  "panel_selectedObject selected_chair = Some 0"
  "traverse (items selected_chair 0) = chair_nodes"
  "originalColors selected_chair = Map.empty"
  by (simp_all add: selected_chair_eq chair_world_traverse) (simp add: chair_world_def placeFurniture_def Let_def initial_world_def split: prod.splits)


lemma root_of_traverse: "traverse a = n # ns \<Longrightarrow> root a = n \<and> descendants a = ns"
  by (simp add: traverse_def)

lemma chair_root_uuid: "uuid (root (items selected_chair 0)) = ''u0''"
  using root_of_traverse [of "items selected_chair 0" "hd chair_nodes" "tl chair_nodes"]
  by (simp add: selected_chair_facts) (simp add: chair_nodes_def Group_def)

lemma chair_hue: "real_of_int (js_rem (ce_id chair_entry * 37) 360) / 360 = 84 / 360"
  by (simp add: chair_entry_def js_rem_def)

lemma chair_world_store:
  "next_ref (store chair_world) = 2"
  "mats (store chair_world) 0 = MeshStandardMaterial (HSL (84 / 360) 0.6 0.5) 0.7 0.1"
  "mats (store chair_world) (Suc 0) = MeshStandardMaterial (Hex 0x4a4a4a) 1 0"
  by (simp_all add: chair_store chair_alloc next_ref_initial chair_hue)

lemma highlight_chair_store:
  assumes "emissive (mats h 0) = Some c0" "emissive (mats h 1) = Some c1"
  shows "mats (snd (fold highlight_node chair_nodes (om, h))) 0 =
           (mats h 0)\<lparr>emissive := Some (Hex selectedEmissive), emissiveIntensity := Some (1 / 2)\<rparr>"
    and "mats (snd (fold highlight_node chair_nodes (om, h))) 1 =
           (mats h 1)\<lparr>emissive := Some (Hex selectedEmissive), emissiveIntensity := Some (1 / 2)\<rparr>"
    and "next_ref (snd (fold highlight_node chair_nodes (om, h))) = next_ref h"
  using assms
  by (simp_all add: chair_nodes_def highlight_node_def Mesh_def Group_def placed_at_def Let_def)

lemma selected_chair_store:
  "next_ref (store selected_chair) = 2"
  "mats (store selected_chair) 0 =
     (MeshStandardMaterial (HSL (84 / 360) 0.6 0.5) 0.7 0.1)
       \<lparr>emissive := Some (Hex selectedEmissive), emissiveIntensity := Some (1 / 2)\<rparr>"
  "mats (store selected_chair) (Suc 0) =
     (MeshStandardMaterial (Hex 0x4a4a4a) 1 0)
       \<lparr>emissive := Some (Hex selectedEmissive), emissiveIntensity := Some (1 / 2)\<rparr>"
proof -
  have e: "emissive (mats (store chair_world) 0) = Some (Hex 0)" "emissive (mats (store chair_world) 1) = Some (Hex 0)"
    by (simp_all add: chair_world_store MeshStandardMaterial_def)
  note cws = chair_world_store chair_world_store(3) [folded One_nat_def]
  have s: "store selected_chair = snd (fold highlight_node chair_nodes (originalMaterials chair_world, store chair_world))"
    using select_unselected(1) [OF cw_fields(1), of 0] by (simp add: selected_chair_eq chair_world_traverse)
  show "next_ref (store selected_chair) = 2"
    unfolding s using highlight_chair_store(3) [OF e] by (simp add: cws)
  show "mats (store selected_chair) 0 =
     (MeshStandardMaterial (HSL (84 / 360) 0.6 0.5) 0.7 0.1)
       \<lparr>emissive := Some (Hex selectedEmissive), emissiveIntensity := Some (1 / 2)\<rparr>"
    unfolding s using highlight_chair_store(1) [OF e] by (simp add: cws)
  show "mats (store selected_chair) (Suc 0) =
     (MeshStandardMaterial (Hex 0x4a4a4a) 1 0)
       \<lparr>emissive := Some (Hex selectedEmissive), emissiveIntensity := Some (1 / 2)\<rparr>"
    unfolding s using highlight_chair_store(2) [OF e] by (simp add: cws)
qed

lemma chair_snapshot_facts:
  "length chair_snapshot = 6"
  by (simp_all add: chair_snapshot_def chair_nodes_def snapshot_node_def selected_chair_store
        Mesh_def Group_def placed_at_def MeshStandardMaterial_def)


lemma traverse_with_Cons:
  "traverse_with f (n # ns) h =
     (fst (f n h) # fst (traverse_with f ns (snd (f n h))), snd (traverse_with f ns (snd (f n h))))"
  by (simp split: prod.splits)

lemma color_chair_nodes:
  assumes "next_ref h = 2" "\<not> isCloned (mats h 0)" "\<not> isCloned (mats h (Suc 0))"
    "color (mats h 0) = Some c0" "color (mats h (Suc 0)) = Some c1"
  shows "fst (traverse_with (color_node c) chair_nodes h) = red_chair_nodes"
    and "mats (snd (traverse_with (color_node c) chair_nodes h)) 2 = (mats h 0)\<lparr>isCloned := True, color := Some c\<rparr>"
  using assms
  by (simp_all add: chair_nodes_def red_chair_nodes_def red_seat_def color_node_def ensure_cloned_def
        clone_material_def alloc_def Mesh_def Group_def placed_at_def Let_def traverse_with_Cons
        del: traverse_with.simps(2))

lemma traverse_set_nodes: "ns \<noteq> [] \<Longrightarrow> traverse (set_nodes obj ns) = ns"
  by (cases ns) (simp_all add: set_nodes_def traverse_def)

lemma length_traverse_with: "length (fst (traverse_with f ns h)) = length ns"
  by (induction ns arbitrary: h) (simp_all add: traverse_with_Cons del: traverse_with.simps(2))

lemma traverse_traverse_update:
  "traverse (fst (traverse_update f obj h)) = fst (traverse_with f (traverse obj) h)"
proof -
  have "fst (traverse_with f (traverse obj) h) \<noteq> []"
    using length_traverse_with [of f "traverse obj" h] by (auto simp: traverse_def)
  then show ?thesis
    by (simp add: traverse_update_def traverse_set_nodes case_prod_beta)
qed

lemma snd_traverse_update:
  "snd (traverse_update f obj h) = snd (traverse_with f (traverse obj) h)"
  by (simp add: traverse_update_def case_prod_beta)

lemma on_selected_fields:
  assumes "panel_selectedObject w = Some ob"
  shows "traverse (items (on_selected f w) ob) = fst (traverse_with f (traverse (items w ob)) (store w))"
    and "store (on_selected f w) = snd (traverse_with f (traverse (items w ob)) (store w))"
    and "originalColors (on_selected f w) = originalColors w"
    and "panel_selectedObject (on_selected f w) = Some ob"
  using assms
  by (simp_all add: on_selected_def Let_def traverse_traverse_update snd_traverse_update)

lemma stored_chair:
  "storeOriginalColors selected_chair = selected_chair\<lparr>originalColors := [''u0'' \<mapsto> chair_snapshot]\<rparr>"
  by (simp add: storeOriginalColors_def selected_chair_facts chair_root_uuid chair_snapshot_def Let_def)

lemma red_chair_facts:
  "panel_selectedObject red_chair = Some 0"
  "traverse (items red_chair 0) = red_chair_nodes"
  "originalColors red_chair = [''u0'' \<mapsto> chair_snapshot]"
  "mats (store red_chair) 2 =
     (MeshStandardMaterial (HSL (84 / 360) 0.6 0.5) 0.7 0.1)
       \<lparr>emissive := Some (Hex selectedEmissive), emissiveIntensity := Some (1 / 2),
        isCloned := True, color := Some (Hex 0xff0000)\<rparr>"
proof -
  let ?w = "selected_chair\<lparr>originalColors := [''u0'' \<mapsto> chair_snapshot]\<rparr>"
  have p: "panel_selectedObject ?w = Some 0" by (simp add: selected_chair_facts)
  have r: "red_chair = on_selected (color_node (Hex 0xff0000)) ?w"
    by (simp add: red_chair_def applyColor_def selected_chair_facts stored_chair)
  have c: "next_ref (store selected_chair) = 2" "\<not> isCloned (mats (store selected_chair) 0)"
    "\<not> isCloned (mats (store selected_chair) (Suc 0))"
    "color (mats (store selected_chair) 0) = Some (HSL (84 / 360) 0.6 0.5)"
    "color (mats (store selected_chair) (Suc 0)) = Some (Hex 0x4a4a4a)"
    by (simp_all add: selected_chair_store MeshStandardMaterial_def)
  show "panel_selectedObject red_chair = Some 0"
    unfolding r using on_selected_fields(4) [OF p] by simp
  show "traverse (items red_chair 0) = red_chair_nodes"
    unfolding r using on_selected_fields(1) [OF p] color_chair_nodes(1) [OF c]
    by (simp add: selected_chair_facts)
  show "originalColors red_chair = [''u0'' \<mapsto> chair_snapshot]"
    unfolding r using on_selected_fields(3) [OF p] by simp
  show "mats (store red_chair) 2 =
     (MeshStandardMaterial (HSL (84 / 360) 0.6 0.5) 0.7 0.1)
       \<lparr>emissive := Some (Hex selectedEmissive), emissiveIntensity := Some (1 / 2),
        isCloned := True, color := Some (Hex 0xff0000)\<rparr>"
    unfolding r using on_selected_fields(2) [OF p] color_chair_nodes(2) [OF c]
    by (simp add: selected_chair_facts selected_chair_store)
qed

lemma color_node_edit:
  "color_node c = edit_node (\<lambda>m. if color m \<noteq> None then m\<lparr>color := Some c\<rparr> else m)"
  by (rule ext, rule ext)
     (simp add: color_node_def edit_node_def modify_def Let_def split: option.splits)

lemma preset_node_edit:
  "preset_node mt rg =
     edit_node (\<lambda>m. (let m1 = (if metalness m \<noteq> None then m\<lparr>metalness := Some mt\<rparr> else m);
                          m2 = (if roughness m1 \<noteq> None then m1\<lparr>roughness := Some rg\<rparr> else m1)
                      in m2\<lparr>needsUpdate := True\<rparr>))"
  by (rule ext, rule ext) (simp add: preset_node_def edit_node_def split: option.splits)

lemma opacity_node_edit:
  "opacity_node op = edit_node (\<lambda>m. m\<lparr>transparent := (op < 1), opacity := Some op, needsUpdate := True\<rparr>)"
  by (rule ext, rule ext) (simp add: opacity_node_def edit_node_def split: option.splits)

lemma keeps_color: "keeps (\<lambda>m. if color m \<noteq> None then m\<lparr>color := Some c\<rparr> else m)"
  by (auto simp: keeps_def fits_def)

lemma keeps_preset:
  "keeps (\<lambda>m. (let m1 = (if metalness m \<noteq> None then m\<lparr>metalness := Some mt\<rparr> else m);
                    m2 = (if roughness m1 \<noteq> None then m1\<lparr>roughness := Some rg\<rparr> else m1)
                in m2\<lparr>needsUpdate := True\<rparr>))"
  by (auto simp: keeps_def fits_def Let_def)

lemma keeps_opacity:
  "keeps (\<lambda>m. m\<lparr>transparent := (op < 1), opacity := Some op, needsUpdate := True\<rparr>)"
  by (auto simp: keeps_def fits_def)

lemma keepsD: "keeps \<phi> \<Longrightarrow> fits c m \<Longrightarrow> fits c (\<phi> m)"
  unfolding keeps_def by blast

lemma compat_isCloned [simp]: "fits c (m\<lparr>isCloned := b\<rparr>) = fits c m"
  by (simp add: fits_def)

lemma edit_node_cases:
  "(edit_node \<phi> n h = (n, h) \<and> (material n = None \<or> \<not> isMesh n))
   \<or> (\<exists>r. material n = Some r \<and> isMesh n \<and> isCloned (mats h r)
         \<and> fst (edit_node \<phi> n h) = n
         \<and> mats (snd (edit_node \<phi> n h)) = (mats h)(r := \<phi> (mats h r))
         \<and> next_ref (snd (edit_node \<phi> n h)) = next_ref h)
   \<or> (\<exists>r. material n = Some r \<and> isMesh n \<and> \<not> isCloned (mats h r)
         \<and> fst (edit_node \<phi> n h) = n\<lparr>material := Some (next_ref h)\<rparr>
         \<and> mats (snd (edit_node \<phi> n h)) = (mats h)(next_ref h := \<phi> ((mats h r)\<lparr>isCloned := True\<rparr>))
         \<and> next_ref (snd (edit_node \<phi> n h)) = Suc (next_ref h))"
  by (cases "material n")
     (auto simp: edit_node_def ensure_cloned_def clone_material_def alloc_def Let_def)

lemma edit_node_shape: "same_shape (fst (edit_node \<phi> n h)) n"
  using edit_node_cases [of \<phi> n h] by (auto simp: same_shape_def)

lemma edit_node_mono: "next_ref h \<le> next_ref (snd (edit_node \<phi> n h))"
  using edit_node_cases [of \<phi> n h] by auto

lemma edit_node_compat:
  assumes "keeps \<phi>" "r < next_ref h" "fits c (mats h r)"
  shows "fits c (mats (snd (edit_node \<phi> n h)) r)"
  using edit_node_cases [of \<phi> n h] assms by (auto intro: keepsD)

lemma edit_node_ok:
  assumes "keeps \<phi>" "settled g S h n"
  shows "\<exists>g'. (\<forall>r<next_ref h. g' r = g r) \<and> settled g' S (snd (edit_node \<phi> n h)) (fst (edit_node \<phi> n h))"
proof -
  consider (same) "edit_node \<phi> n h = (n, h)"
    | (shared) r where "material n = Some r" "isMesh n" "fst (edit_node \<phi> n h) = n"
        "mats (snd (edit_node \<phi> n h)) = (mats h)(r := \<phi> (mats h r))"
        "next_ref (snd (edit_node \<phi> n h)) = next_ref h"
    | (cloned) r where "material n = Some r" "isMesh n"
        "fst (edit_node \<phi> n h) = n\<lparr>material := Some (next_ref h)\<rparr>"
        "mats (snd (edit_node \<phi> n h)) = (mats h)(next_ref h := \<phi> ((mats h r)\<lparr>isCloned := True\<rparr>))"
        "next_ref (snd (edit_node \<phi> n h)) = Suc (next_ref h)"
    using edit_node_cases [of \<phi> n h] by blast
  then show ?thesis
  proof cases
    case same
    then show ?thesis using assms(2) by (intro exI [of _ g]) simp
  next
    case shared
    then show ?thesis
      using assms by (intro exI [of _ g]) (auto simp: settled_def intro: keepsD)
  next
    case cloned
    then show ?thesis
      using assms by (intro exI [of _ "g(next_ref h := g r)"]) (auto simp: settled_def intro: keepsD)
  qed
qed

lemma ok_mono:
  assumes "settled g S h n" "next_ref h \<le> next_ref h'" "\<forall>r<next_ref h. g' r = g r"
    and "\<forall>r<next_ref h. \<forall>c. fits c (mats h r) \<longrightarrow> fits c (mats h' r)"
  shows "settled g' S h' n"
  using assms unfolding settled_def by (metis order_less_le_trans)

lemma traverse_with_edit_shape:
  "list_all2 same_shape (fst (traverse_with (edit_node \<phi>) ns h)) ns"
  by (induction ns arbitrary: h)
     (simp_all add: traverse_with_Cons edit_node_shape del: traverse_with.simps(2))

lemma traverse_with_edit_ok:
  assumes "keeps \<phi>" "\<forall>n\<in>set ns. settled g S h n"
  shows "\<exists>g'. (\<forall>r<next_ref h. g' r = g r)
           \<and> (\<forall>n\<in>set (fst (traverse_with (edit_node \<phi>) ns h)). settled g' S (snd (traverse_with (edit_node \<phi>) ns h)) n)
           \<and> next_ref h \<le> next_ref (snd (traverse_with (edit_node \<phi>) ns h))
           \<and> (\<forall>r<next_ref h. \<forall>c. fits c (mats h r) \<longrightarrow>
                 fits c (mats (snd (traverse_with (edit_node \<phi>) ns h)) r))"
  using assms(2)
proof (induction ns arbitrary: h g)
  case Nil
  show ?case by (intro exI [of _ g]) simp
next
  case (Cons n ns)
  let ?n1 = "fst (edit_node \<phi> n h)" and ?h1 = "snd (edit_node \<phi> n h)"
  let ?res = "traverse_with (edit_node \<phi>) ns ?h1"
  have mono1: "next_ref h \<le> next_ref ?h1" by (rule edit_node_mono)
  have keep1: "\<forall>r<next_ref h. \<forall>c. fits c (mats h r) \<longrightarrow> fits c (mats ?h1 r)"
    using edit_node_compat [OF assms(1)] by blast
  from edit_node_ok [OF assms(1), of g S h n] Cons.prems
  obtain g1 where g1: "\<forall>r<next_ref h. g1 r = g r" "settled g1 S ?h1 ?n1"
    by auto
  have tl: "\<forall>x\<in>set ns. settled g1 S ?h1 x"
  proof
    fix x assume "x \<in> set ns"
    then have "settled g S h x" using Cons.prems by simp
    then show "settled g1 S ?h1 x"
      by (rule ok_mono [OF _ mono1 g1(1) keep1])
  qed
  from Cons.IH [OF tl] obtain g2 where g2: "\<forall>r<next_ref ?h1. g2 r = g1 r"
    "\<forall>x\<in>set (fst ?res). settled g2 S (snd ?res) x"
    "next_ref ?h1 \<le> next_ref (snd ?res)"
    "\<forall>r<next_ref ?h1. \<forall>c. fits c (mats ?h1 r) \<longrightarrow> fits c (mats (snd ?res) r)"
    by blast
  have hd: "settled g2 S (snd ?res) ?n1"
    by (rule ok_mono [OF g1(2) g2(3) g2(1) g2(4)])
  have a: "\<forall>r<next_ref h. g2 r = g r"
    using g1(1) g2(1) mono1 by (metis order_less_le_trans)
  have b: "\<forall>r<next_ref h. \<forall>c. fits c (mats h r) \<longrightarrow> fits c (mats (snd ?res) r)"
    using keep1 g2(4) mono1 by (metis order_less_le_trans)
  show ?case
    using a b hd g2(2) g2(3) mono1
    by (intro exI [of _ g2]) (simp add: traverse_with_Cons del: traverse_with.simps(2))
qed

lemma restore_saved_chans:
  assumes "schans orig = c" "fits c m"
  shows "mchans (restore_saved orig m) = c" "fits c (restore_saved orig m)"
  using assms by (auto simp: schans_def mchans_def fits_def restore_saved_fields)

lemma fold_reset_step_chans:
  assumes "\<forall>n\<in>set ns. applied S r n = None \<or> (\<exists>orig. applied S r n = Some orig \<and> schans orig = c)"
    and "fits c m"
  shows "fits c (fold (reset_step S r) ns m)
       \<and> (mchans m = c \<or> (\<exists>n\<in>set ns. applied S r n \<noteq> None) \<longrightarrow> mchans (fold (reset_step S r) ns m) = c)"
  using assms
proof (induction ns arbitrary: m)
  case Nil
  then show ?case by simp
next
  case (Cons n ns)
  show ?case
  proof (cases "applied S r n")
    case None
    then have e: "reset_step S r n m = m" by (simp add: reset_step_def)
    show ?thesis
      using Cons.IH [of m] Cons.prems None by (simp add: e)
  next
    case (Some orig)
    then have o: "schans orig = c" using Cons.prems(1) by auto
    have e: "reset_step S r n m = restore_saved orig m" by (simp add: reset_step_def Some)
    note rs = restore_saved_chans [OF o Cons.prems(2)]
    show ?thesis
      using Cons.IH [of "restore_saved orig m"] Cons.prems(1) rs Some by (simp add: e)
  qed
qed

lemma reset_chans:
  assumes "\<forall>n\<in>set ns. settled g S h n" "n \<in> set ns" "isMesh n" "material n = Some r"
  shows "mchans (mats (fold (reset_node S) ns h) r) = g r"
proof -
  have 1: "\<forall>x\<in>set ns. applied S r x = None \<or> (\<exists>orig. applied S r x = Some orig \<and> schans orig = g r)"
    using assms(1) by (auto simp: applied_def settled_def)
  have 2: "fits (g r) (mats h r)"
    using assms by (auto simp: settled_def)
  have 3: "\<exists>x\<in>set ns. applied S r x \<noteq> None"
    using assms by (auto simp: applied_def settled_def intro!: bexI [of _ n])
  show ?thesis
    using fold_reset_step_chans [OF 1 2] 3 by (simp add: mats_fold_reset)
qed

lemma find_snapshot_other:
  "uuid n \<notin> uuid ` set ns \<Longrightarrow> find (\<lambda>s. sc_uuid s = uuid n) (concat (map (snapshot_node h) ns)) = None"
  by (induction ns) (auto simp: snapshot_node_def find_None_iff split: option.splits)

lemma find_append:
  "find P (xs @ ys) = (case find P xs of None \<Rightarrow> find P ys | Some x \<Rightarrow> Some x)"
  by (induction xs) simp_all

lemma find_snapshot:
  assumes "distinct (map uuid ns)" "n \<in> set ns" "isMesh n" "material n = Some r"
  shows "\<exists>orig. find (\<lambda>s. sc_uuid s = uuid n) (concat (map (snapshot_node h) ns)) = Some orig
            \<and> schans orig = mchans (mats h r)"
  using assms
proof (induction ns)
  case Nil
  then show ?case by simp
next
  case (Cons x xs)
  show ?case
  proof (cases "x = n")
    case True
    then show ?thesis
      using Cons.prems by (simp add: snapshot_node_def schans_def mchans_def)
  next
    case False
    then have m: "n \<in> set xs" using Cons.prems by simp
    then have u: "uuid x \<noteq> uuid n" using Cons.prems(1) by force
    have "find (\<lambda>s. sc_uuid s = uuid n) (snapshot_node h x) = None"
      using u by (simp add: snapshot_node_def split: option.splits)
    then show ?thesis
      using Cons.IH [OF _ m Cons.prems(3,4)] Cons.prems(1) by (simp add: find_append)
  qed
qed


lemma same_shape_trans: "same_shape a b \<Longrightarrow> same_shape b c \<Longrightarrow> same_shape a c"
  by (simp add: same_shape_def)

lemma same_shape_refl: "list_all2 same_shape ns ns"
  by (simp add: list_all2_refl same_shape_def)

lemma inv_root_uuid:
  assumes "snapshot_inv S ns0 ob w"
  shows "uuid (root (items w ob)) = uuid (hd ns0)"
proof -
  from assms have "list_all2 same_shape (root (items w ob) # descendants (items w ob)) ns0"
    by (simp add: snapshot_inv_def traverse_def)
  then show ?thesis
    by (cases ns0) (simp_all add: same_shape_def)
qed

lemma inv_storeOriginalColors:
  assumes "snapshot_inv S ns0 ob w"
  shows "storeOriginalColors w = w"
  using assms inv_root_uuid [OF assms] by (simp add: storeOriginalColors_def snapshot_inv_def Let_def)

lemma inv_on_selected:
  assumes "keeps \<phi>" "snapshot_inv S ns0 ob w"
  shows "snapshot_inv S ns0 ob (on_selected (edit_node \<phi>) w)"
proof -
  from assms(2) have p: "panel_selectedObject w = Some ob"
    and s: "originalColors w (uuid (hd ns0)) = Some S"
    and l: "list_all2 same_shape (traverse (items w ob)) ns0"
    by (simp_all add: snapshot_inv_def)
  from assms(2) obtain g where g: "\<forall>n\<in>set (traverse (items w ob)). settled g S (store w) n"
    unfolding snapshot_inv_def by blast
  note f = on_selected_fields [OF p, of "edit_node \<phi>"]
  have l': "list_all2 same_shape (traverse (items (on_selected (edit_node \<phi>) w) ob)) ns0"
    unfolding f(1)
    by (rule list_all2_trans [OF _ traverse_with_edit_shape l]) (rule same_shape_trans)
  from traverse_with_edit_ok [OF assms(1) g] obtain g' where
    "\<forall>n\<in>set (traverse (items (on_selected (edit_node \<phi>) w) ob)). settled g' S (store (on_selected (edit_node \<phi>) w)) n"
    unfolding f(1) f(2) by blast
  then show ?thesis
    unfolding snapshot_inv_def using f(3) f(4) s l' by auto
qed

lemma inv_apply_edit:
  assumes "snapshot_inv S ns0 ob w"
  shows "snapshot_inv S ns0 ob (apply_edit e w)"
proof -
  from assms have p: "panel_selectedObject w = Some ob"
    by (simp add: snapshot_inv_def)
  note st = inv_storeOriginalColors [OF assms]
  show ?thesis
  proof (cases e)
    case (PickColor c)
    then have "apply_edit e w = on_selected (color_node c) w"
      by (simp add: apply_edit_def applyColor_def p st)
    then show ?thesis
      using inv_on_selected [OF keeps_color assms] by (simp add: color_node_edit)
  next
    case (PickMaterial pr)
    then have "apply_edit e w =
        on_selected (preset_node (fst (preset_settings pr)) (snd (preset_settings pr))) w"
      by (simp add: apply_edit_def applyMaterial_def p st)
    then show ?thesis
      using inv_on_selected [OF keeps_preset assms] by (simp add: preset_node_edit)
  next
    case (SlideOpacity op)
    then have "apply_edit e w = on_selected (opacity_node op) w"
      by (simp add: apply_edit_def applyOpacity_def)
    then show ?thesis
      using inv_on_selected [OF keeps_opacity assms] by (simp add: opacity_node_edit)
  qed
qed

lemma inv_apply_edits:
  "snapshot_inv S ns0 ob w \<Longrightarrow> snapshot_inv S ns0 ob (apply_edits es w)"
  unfolding apply_edits_def
  by (induction es arbitrary: w) (simp_all add: inv_apply_edit)

lemma inv_init:
  assumes "panel_selectedObject w = Some ob"
    and "originalColors w (uuid (root (items w ob))) = None"
    and "distinct (map uuid (traverse (items w ob)))"
    and "\<forall>n\<in>set (traverse (items w ob)). \<forall>r. material n = Some r \<longrightarrow>
           r < next_ref (store w) \<and> opacity (mats (store w) r) \<noteq> None"
  shows "snapshot_inv (concat (map (snapshot_node (store w)) (traverse (items w ob)))) (traverse (items w ob)) ob
           (storeOriginalColors w)"
proof -
  let ?ns = "traverse (items w ob)" and ?h = "store w"
  let ?S = "concat (map (snapshot_node ?h) ?ns)"
  have e: "storeOriginalColors w = w\<lparr>originalColors := (originalColors w)(uuid (root (items w ob)) \<mapsto> ?S)\<rparr>"
    using assms(1,2) by (simp add: storeOriginalColors_def Let_def)
  have hd: "hd ?ns = root (items w ob)"
    by (simp add: traverse_def)
  have "settled (\<lambda>r. mchans (mats ?h r)) ?S ?h n" if "n \<in> set ?ns" for n
    unfolding settled_def
  proof (intro allI impI conjI)
    fix r assume a: "isMesh n \<and> material n = Some r"
    then show "r < next_ref ?h" using assms(4) that by blast
    from a have "opacity (mats ?h r) \<noteq> None" using assms(4) that by blast
    then show "fits (mchans (mats ?h r)) (mats ?h r)"
      by (simp add: fits_def mchans_def)
    from a show "\<exists>orig. find (\<lambda>s. sc_uuid s = uuid n) ?S = Some orig \<and> schans orig = mchans (mats ?h r)"
      using find_snapshot [OF assms(3) that, of r ?h] by blast
  qed
  then show ?thesis
    unfolding snapshot_inv_def e using assms(1) by (auto simp: hd same_shape_refl)
qed

lemma first_edit:
  assumes "takes_snapshot e" "panel_selectedObject w = Some ob"
  shows "\<exists>\<phi>. keeps \<phi> \<and> apply_edit e w = on_selected (edit_node \<phi>) (storeOriginalColors w)"
proof (cases e)
  case (PickColor c)
  then show ?thesis
    using assms(2) keeps_color [of c]
    by (intro exI [of _ "\<lambda>m. if color m \<noteq> None then m\<lparr>color := Some c\<rparr> else m"])
       (simp add: apply_edit_def applyColor_def color_node_edit)
next
  case (PickMaterial pr)
  then show ?thesis
    using assms(2) keeps_preset [of "fst (preset_settings pr)" "snd (preset_settings pr)"]
    by (intro exI [of _ "\<lambda>m. (let m1 = (if metalness m \<noteq> None then m\<lparr>metalness := Some (fst (preset_settings pr))\<rparr> else m);
                    m2 = (if roughness m1 \<noteq> None then m1\<lparr>roughness := Some (snd (preset_settings pr))\<rparr> else m1)
                in m2\<lparr>needsUpdate := True\<rparr>)"])
       (simp add: apply_edit_def applyMaterial_def preset_node_edit)
next
  case (SlideOpacity op)
  then show ?thesis using assms(1) by (simp add: takes_snapshot_def)
qed

lemma inv_reset:
  assumes "snapshot_inv S ns0 ob w" "S = concat (map (snapshot_node h0) ns0)" "distinct (map uuid ns0)"
  shows "mesh_channels (resetColor w) ob = map (channels h0) ns0"
proof -
  let ?ns = "traverse (items w ob)"
  let ?hF = "fold (reset_node S) ?ns (store w)"
  from assms(1) have p: "panel_selectedObject w = Some ob"
    and s: "originalColors w (uuid (hd ns0)) = Some S"
    and l: "list_all2 same_shape ?ns ns0"
    by (simp_all add: snapshot_inv_def)
  from assms(1) obtain g where g: "\<forall>n\<in>set ?ns. settled g S (store w) n"
    unfolding snapshot_inv_def by blast
  have r: "resetColor w = w\<lparr>store := ?hF\<rparr>"
    using p s inv_root_uuid [OF assms(1)] by (simp add: resetColor_def)
  have "list_all2 (\<lambda>n' n. channels ?hF n' = channels h0 n) ?ns ns0"
    using l
  proof (rule list.rel_mono_strong)
    fix n' n
    assume m: "n' \<in> set ?ns" "n \<in> set ns0" and sh: "same_shape n' n"
    show "channels ?hF n' = channels h0 n"
    proof (cases "isMesh n' \<and> material n' \<noteq> None")
      case False
      then show ?thesis
        using sh by (auto simp: channels_def same_shape_def split: option.splits)
    next
      case True
      then obtain r' r0 where mt: "material n' = Some r'" "material n = Some r0" "isMesh n'" "isMesh n"
        using sh by (auto simp: same_shape_def)
      have 1: "mchans (mats ?hF r') = g r'"
        by (rule reset_chans [OF g m(1) mt(3) mt(1)])
      from g m(1) mt obtain orig where o: "find (\<lambda>s. sc_uuid s = uuid n') S = Some orig" "schans orig = g r'"
        unfolding settled_def by blast
      from find_snapshot [OF assms(3) m(2) mt(4) mt(2), of h0] obtain orig'
        where o': "find (\<lambda>s. sc_uuid s = uuid n) S = Some orig'" "schans orig' = mchans (mats h0 r0)"
        unfolding assms(2) by blast
      have "uuid n' = uuid n" using sh by (simp add: same_shape_def)
      then have "g r' = mchans (mats h0 r0)"
        using o o' by simp
      then show ?thesis
        using 1 mt by (simp add: channels_def)
    qed
  qed
  then have "map (channels ?hF) ?ns = map (channels h0) ns0"
    by (simp add: list_all2_map1 list_all2_map2 list.rel_eq [symmetric] del: list.rel_eq)
  then show ?thesis
    by (simp add: mesh_channels_def r)
qed

lemma edits_then_reset:
  assumes "panel_selectedObject w = Some ob"
    and "originalColors w (uuid (root (items w ob))) = None"
    and "distinct (map uuid (traverse (items w ob)))"
    and "\<forall>n\<in>set (traverse (items w ob)). \<forall>r. material n = Some r \<longrightarrow>
           r < next_ref (store w) \<and> opacity (mats (store w) r) \<noteq> None"
    and "takes_snapshot e"
  shows "originalColors (apply_edits (e # es) w) (uuid (root (items w ob)))
           = Some (concat (map (snapshot_node (store w)) (traverse (items w ob))))"
    and "mesh_channels (resetColor (apply_edits (e # es) w)) ob = mesh_channels w ob"
proof -
  let ?ns = "traverse (items w ob)"
  let ?S = "concat (map (snapshot_node (store w)) ?ns)"
  from first_edit [OF assms(5,1)] obtain \<phi> where
    f: "keeps \<phi>" "apply_edit e w = on_selected (edit_node \<phi>) (storeOriginalColors w)"
    by blast
  have "snapshot_inv ?S ?ns ob (apply_edit e w)"
    unfolding f(2) by (rule inv_on_selected [OF f(1) inv_init [OF assms(1-4)]])
  then have i: "snapshot_inv ?S ?ns ob (apply_edits (e # es) w)"
    using inv_apply_edits [of ?S ?ns ob "apply_edit e w" es] by (simp add: apply_edits_def)
  have hd: "hd ?ns = root (items w ob)"
    by (simp add: traverse_def)
  show "originalColors (apply_edits (e # es) w) (uuid (root (items w ob))) = Some ?S"
    using i by (simp add: snapshot_inv_def hd)
  show "mesh_channels (resetColor (apply_edits (e # es) w)) ob = mesh_channels w ob"
    using inv_reset [OF i refl assms(3)] by (simp add: mesh_channels_def)
qed

text \<open>
  The opacity slider changes the materials without taking the snapshot: the handlers of
  the colour and of the material preset call \<open>_storeOriginalColors\<close> first,
  \<open>_applyOpacity\<close> does not. So a reset that follows an opacity change alone finds no
  snapshot and leaves the new opacity.
\<close>

lemma reset_after_opacity_alone:
  assumes "panel_selectedObject w = Some ob" "originalColors w (uuid (root (items w ob))) = None"
  shows "resetColor (applyOpacity op w) = applyOpacity op w"
proof -
  note f = on_selected_fields [OF assms(1), of "opacity_node op", unfolded opacity_node_edit]
  have "list_all2 same_shape (traverse (items (applyOpacity op w) ob)) (traverse (items w ob))"
    unfolding applyOpacity_def opacity_node_edit f(1) by (rule traverse_with_edit_shape)
  then have "uuid (root (items (applyOpacity op w) ob)) = uuid (root (items w ob))"
    by (simp add: traverse_def same_shape_def)
  then show ?thesis
    using assms f(3) f(4) by (simp add: resetColor_def applyOpacity_def opacity_node_edit)
qed

text \<open>
  C8, as the code has it. Reset-to-original keeps the snapshot stored for the selected
  item instead of clearing it; a second reset in a row changes nothing; with no snapshot
  for the selected item, as when the item was never changed, (or with no selected item)
  reset is a no-op. When the first change made to an item is a colour or material-preset
  change, the snapshot is taken before that change: it holds, under the item's uuid, the
  channels of every sub-mesh as they were, and whatever colour, material-preset and
  opacity changes follow, a reset gives every sub-mesh of the item the colour, metalness,
  roughness and opacity it had before the first change. (The nodes of the item have
  distinct uuids, and the materials of its nodes are in the store and have an opacity, as
  every material of the library has.)
\<close>

theorem reset_restores_and_keeps_snapshot:
  "originalColors (resetColor w) = originalColors w
   \<and> resetColor (resetColor w) = resetColor w
   \<and> ((case panel_selectedObject w of
          None \<Rightarrow> True
        | Some ob \<Rightarrow> originalColors w (uuid (root (items w ob))) = None) \<longrightarrow> resetColor w = w)
   \<and> (panel_selectedObject w = Some ob
        \<and> originalColors w (uuid (root (items w ob))) = None
        \<and> distinct (map uuid (traverse (items w ob)))
        \<and> (\<forall>n\<in>set (traverse (items w ob)). \<forall>r. material n = Some r \<longrightarrow>
              r < next_ref (store w) \<and> opacity (mats (store w) r) \<noteq> None)
        \<and> takes_snapshot e
       \<longrightarrow> originalColors (apply_edits (e # es) w) (uuid (root (items w ob)))
             = Some (concat (map (snapshot_node (store w)) (traverse (items w ob))))
           \<and> mesh_channels (resetColor (apply_edits (e # es) w)) ob = mesh_channels w ob)"
proof (intro conjI impI)
  show "originalColors (resetColor w) = originalColors w" by (rule originalColors_resetColor)
  show "resetColor (resetColor w) = resetColor w" by (rule resetColor_idem)
  show "resetColor w = w"
    if "case panel_selectedObject w of None \<Rightarrow> True
        | Some ob \<Rightarrow> originalColors w (uuid (root (items w ob))) = None"
    using that by (simp add: resetColor_def split: option.splits)
next
  assume a: "panel_selectedObject w = Some ob
        \<and> originalColors w (uuid (root (items w ob))) = None
        \<and> distinct (map uuid (traverse (items w ob)))
        \<and> (\<forall>n\<in>set (traverse (items w ob)). \<forall>r. material n = Some r \<longrightarrow>
              r < next_ref (store w) \<and> opacity (mats (store w) r) \<noteq> None)
        \<and> takes_snapshot e"
  then have a1: "panel_selectedObject w = Some ob"
    and a2: "originalColors w (uuid (root (items w ob))) = None"
    and a3: "distinct (map uuid (traverse (items w ob)))"
    and a4: "\<forall>n\<in>set (traverse (items w ob)). \<forall>r. material n = Some r \<longrightarrow>
              r < next_ref (store w) \<and> opacity (mats (store w) r) \<noteq> None"
    and a5: "takes_snapshot e"
    by blast+
  show "originalColors (apply_edits (e # es) w) (uuid (root (items w ob)))
             = Some (concat (map (snapshot_node (store w)) (traverse (items w ob))))"
    by (rule edits_then_reset(1) [OF a1 a2 a3 a4 a5])
  show "mesh_channels (resetColor (apply_edits (e # es) w)) ob = mesh_channels w ob"
    by (rule edits_then_reset(2) [OF a1 a2 a3 a4 a5])
qed

lemma chair_nodes_facts:
  "map uuid chair_nodes = [''u0'', ''u1'', ''u2'', ''u3'', ''u4'', ''u5'', ''u6'']"
  "map material chair_nodes = [None, Some 0, Some 0, Some 1, Some 1, Some 1, Some 1]"
  "map isMesh chair_nodes = [False, True, True, True, True, True, True]"
  by (simp_all add: chair_nodes_def Mesh_def Group_def placed_at_def)

lemma selected_chair_channels:
  "mesh_channels selected_chair 0 =
     [None,
      Some (Some (HSL (84 / 360) 0.6 0.5), Some 0.1, Some 0.7, Some 1),
      Some (Some (HSL (84 / 360) 0.6 0.5), Some 0.1, Some 0.7, Some 1),
      Some (Some (Hex 0x4a4a4a), Some 0, Some 1, Some 1),
      Some (Some (Hex 0x4a4a4a), Some 0, Some 1, Some 1),
      Some (Some (Hex 0x4a4a4a), Some 0, Some 1, Some 1),
      Some (Some (Hex 0x4a4a4a), Some 0, Some 1, Some 1)]"
  by (simp add: mesh_channels_def selected_chair_facts chair_nodes_def channels_def mchans_def
        selected_chair_store Mesh_def Group_def placed_at_def MeshStandardMaterial_def)

theorem reset_restores_and_keeps_snapshot_witness:
  "panel_selectedObject selected_chair = Some 0
   \<and> originalColors selected_chair (uuid (root (items selected_chair 0))) = None
   \<and> resetColor selected_chair = selected_chair
   \<and> map uuid (traverse (items selected_chair 0)) = [''u0'', ''u1'', ''u2'', ''u3'', ''u4'', ''u5'', ''u6'']
   \<and> map material (traverse (items selected_chair 0)) = [None, Some 0, Some 0, Some 1, Some 1, Some 1, Some 1]
   \<and> next_ref (store selected_chair) = 2
   \<and> opacity (mats (store selected_chair) 0) = Some 1
   \<and> opacity (mats (store selected_chair) 1) = Some 1
   \<and> takes_snapshot (PickColor (Hex 0xff0000))
   \<and> apply_edits [PickColor (Hex 0xff0000)] selected_chair = red_chair
   \<and> color (mats (store red_chair) 2) = Some (Hex 0xff0000)
   \<and> map material (traverse (items red_chair 0)) = [None, Some 2, Some 3, Some 4, Some 5, Some 6, Some 7]
   \<and> mesh_channels (resetColor red_chair) 0 =
       [None,
        Some (Some (HSL (84 / 360) 0.6 0.5), Some 0.1, Some 0.7, Some 1),
        Some (Some (HSL (84 / 360) 0.6 0.5), Some 0.1, Some 0.7, Some 1),
        Some (Some (Hex 0x4a4a4a), Some 0, Some 1, Some 1),
        Some (Some (Hex 0x4a4a4a), Some 0, Some 1, Some 1),
        Some (Some (Hex 0x4a4a4a), Some 0, Some 1, Some 1),
        Some (Some (Hex 0x4a4a4a), Some 0, Some 1, Some 1)]
   \<and> mesh_channels
         (resetColor (apply_edits [PickColor (Hex 0xff0000), SlideOpacity (1 / 2), PickMaterial ''metallic'']
                        selected_chair)) 0
       = mesh_channels selected_chair 0
   \<and> originalColors (resetColor red_chair) = originalColors red_chair
   \<and> resetColor (resetColor red_chair) = resetColor red_chair"
proof -
  have a1: "panel_selectedObject selected_chair = Some 0"
    and a2: "originalColors selected_chair (uuid (root (items selected_chair 0))) = None"
    and t: "traverse (items selected_chair 0) = chair_nodes"
    by (simp_all add: selected_chair_facts)
  have a3: "resetColor selected_chair = selected_chair"
    using reset_restores_and_keeps_snapshot [of selected_chair] a1 a2 by simp
  have u: "map uuid (traverse (items selected_chair 0)) = [''u0'', ''u1'', ''u2'', ''u3'', ''u4'', ''u5'', ''u6'']"
    and m: "map material (traverse (items selected_chair 0)) = [None, Some 0, Some 0, Some 1, Some 1, Some 1, Some 1]"
    unfolding t by (rule chair_nodes_facts)+
  have n: "next_ref (store selected_chair) = 2"
    and o0: "opacity (mats (store selected_chair) 0) = Some 1"
    and o1: "opacity (mats (store selected_chair) 1) = Some 1"
    by (simp_all add: selected_chair_store MeshStandardMaterial_def)
  have ts: "takes_snapshot (PickColor (Hex 0xff0000))"
    by (simp add: takes_snapshot_def)
  have d: "distinct (map uuid (traverse (items selected_chair 0)))"
    unfolding u by simp
  have wf: "\<forall>n\<in>set (traverse (items selected_chair 0)). \<forall>r. material n = Some r \<longrightarrow>
              r < next_ref (store selected_chair) \<and> opacity (mats (store selected_chair) r) \<noteq> None"
    unfolding t n using o0 o1
    by (simp add: chair_nodes_def Mesh_def Group_def placed_at_def)
  have hyp: "panel_selectedObject selected_chair = Some 0
        \<and> originalColors selected_chair (uuid (root (items selected_chair 0))) = None
        \<and> distinct (map uuid (traverse (items selected_chair 0)))
        \<and> (\<forall>n\<in>set (traverse (items selected_chair 0)). \<forall>r. material n = Some r \<longrightarrow>
              r < next_ref (store selected_chair) \<and> opacity (mats (store selected_chair) r) \<noteq> None)
        \<and> takes_snapshot (PickColor (Hex 0xff0000))"
    using a1 a2 d wf ts by blast
  have e: "apply_edits [PickColor (Hex 0xff0000)] selected_chair = red_chair"
    by (simp add: apply_edits_def apply_edit_def red_chair_def)
  note th1 = reset_restores_and_keeps_snapshot
    [where w = selected_chair and ob = 0 and e = "PickColor (Hex 0xff0000)" and es = "[]",
     THEN conjunct2, THEN conjunct2, THEN conjunct2, THEN mp, OF hyp]
  note th2 = reset_restores_and_keeps_snapshot
    [where w = selected_chair and ob = 0 and e = "PickColor (Hex 0xff0000)"
       and es = "[SlideOpacity (1 / 2), PickMaterial ''metallic'']",
     THEN conjunct2, THEN conjunct2, THEN conjunct2, THEN mp, OF hyp]
  have r1: "mesh_channels (resetColor red_chair) 0 =
       [None,
        Some (Some (HSL (84 / 360) 0.6 0.5), Some 0.1, Some 0.7, Some 1),
        Some (Some (HSL (84 / 360) 0.6 0.5), Some 0.1, Some 0.7, Some 1),
        Some (Some (Hex 0x4a4a4a), Some 0, Some 1, Some 1),
        Some (Some (Hex 0x4a4a4a), Some 0, Some 1, Some 1),
        Some (Some (Hex 0x4a4a4a), Some 0, Some 1, Some 1),
        Some (Some (Hex 0x4a4a4a), Some 0, Some 1, Some 1)]"
    using th1 [THEN conjunct2] unfolding e selected_chair_channels .
  have r2: "mesh_channels
         (resetColor (apply_edits [PickColor (Hex 0xff0000), SlideOpacity (1 / 2), PickMaterial ''metallic'']
                        selected_chair)) 0
       = mesh_channels selected_chair 0"
    by (rule th2 [THEN conjunct2])
  have c: "color (mats (store red_chair) 2) = Some (Hex 0xff0000)"
    by (simp add: red_chair_facts)
  have rm: "map material (traverse (items red_chair 0)) = [None, Some 2, Some 3, Some 4, Some 5, Some 6, Some 7]"
    by (simp add: red_chair_facts red_chair_nodes_def red_seat_def Mesh_def Group_def placed_at_def)
  note th = reset_restores_and_keeps_snapshot [of red_chair]
  have k: "originalColors (resetColor red_chair) = originalColors red_chair"
    by (rule th [THEN conjunct1])
  have i: "resetColor (resetColor red_chair) = resetColor red_chair"
    by (rule th [THEN conjunct2, THEN conjunct1])
  show ?thesis
    by (intro conjI a1 a2 a3 u m n o0 o1 ts e c rm r1 r2 k i)
qed

text \<open>
  C8 as stated fails: after painting the chair and resetting it, the snapshot of its six
  meshes is still stored under the chair's uuid.
\<close>

theorem reset_leaves_snapshot:
  "map_option length (originalColors (resetColor red_chair) ''u0'') = Some 6"
  by (simp add: originalColors_resetColor red_chair_facts chair_snapshot_facts)

section \<open>The round trip\<close>

lemma fst_applyMaterialMod:
  "fst (applyMaterialMod mods n h) = n\<lparr>material := material (fst (applyMaterialMod mods n h))\<rparr>"
  by (simp add: applyMaterialMod_def clone_material_def alloc_def Let_def split: option.splits)

lemma root_applyMaterialMods:
  "root (fst (applyMaterialMods obj mods h)) = fst (applyMaterialMod mods (root obj) h)"
  by (simp add: applyMaterialMods_def traverse_update_def traverse_def set_nodes_def
        traverse_with_Cons case_prod_beta del: traverse_with.simps(2))

lemma root_fields_applyMaterialMods:
  "name (root (fst (applyMaterialMods obj mods h))) = name (root obj)"
  "position (root (fst (applyMaterialMods obj mods h))) = position (root obj)"
  "rotation (root (fst (applyMaterialMods obj mods h))) = rotation (root obj)"
  "scale (root (fst (applyMaterialMods obj mods h))) = scale (root obj)"
  unfolding root_applyMaterialMods
  by (subst fst_applyMaterialMod, simp)+



















lemma reapplied_unmatched:
  "find (\<lambda>m. childName m = name n \<or> childName m = uuid n) ms = None \<Longrightarrow>
   reapplied ms h n = serializeMaterialMod h n"
  by (cases "material n") (simp_all add: reapplied_def serializeMaterialMod_def)







lemma materialMods_serializeObject [simp]:
  "materialMods (serializeObject h obj) = serializeMaterialMods h obj"
  by (simp add: serializeObject_def Let_def)

lemma traverse_restore_properties:
  "map material (traverse (restore_properties i d f)) = map material (traverse f)"
  by (simp add: restore_properties_def traverse_def)










end
